theory Spec2Isabelle
  imports Main "HOL-Library.Char_ord" "HOL-Library.List_Lexorder" "HOL-Library.Multiset"
begin

section \<open>Persisted layout\<close>

text \<open>
  The five tables of the SQLite schema. A table is the list of its rows in rowid order, so
  an insert appends a row. Columns declared \<^verbatim>\<open>not null\<close> are strings; the two nullable columns
  (\<^verbatim>\<open>certs.desc\<close>, \<^verbatim>\<open>certs.revoked\<close>) are options, \<open>None\<close> being SQL NULL. Timestamps are kept
  as the text SQLite stores, and compared as text (bytewise), as SQLite and Go both do.
\<close>

record certs_row =
  certs_email :: string
  certs_fingerprint :: string
  certs_desc :: "string option"
  certs_created :: string
  certs_expires :: string
  certs_revoked :: "string option"

record totp_row =
  totp_email :: string
  totp_seed :: string
  totp_created :: string
  totp_updated :: string

record events_row =
  events_event :: string
  events_email :: string
  events_value :: string
  events_ts :: string

record settings_row =
  settings_key :: string
  settings_value :: string
  settings_modified :: string

record whitelist_row =
  whitelist_email :: string
  whitelist_modified :: string

record database =
  tbl_certs :: "certs_row list"
  tbl_totp :: "totp_row list"
  tbl_events :: "events_row list"
  tbl_settings :: "settings_row list"
  tbl_whitelist :: "whitelist_row list"

text \<open>The uniqueness constraints of the schema: \<^verbatim>\<open>certs.fingerprint\<close>, \<^verbatim>\<open>totp.email\<close>,
  \<^verbatim>\<open>settings.key\<close> and \<^verbatim>\<open>whitelist.email\<close> are declared \<^verbatim>\<open>unique\<close>.\<close>

definition schema_ok :: "database \<Rightarrow> bool" where
  "schema_ok db \<longleftrightarrow>
     distinct (map certs_fingerprint (tbl_certs db)) \<and>
     distinct (map totp_email (tbl_totp db)) \<and>
     distinct (map settings_key (tbl_settings db)) \<and>
     distinct (map whitelist_email (tbl_whitelist db))"

section \<open>Replies\<close>

datatype status =
  StatusOK | StatusCreated | StatusBadRequest | StatusNotFound | StatusInternalServerError

text \<open>
  What a handler does to its caller: \<open>SendJSON st body\<close> for \<^verbatim>\<open>httputil.SendJSON(writer, st, &body)\<close>,
  \<open>SendEmpty st\<close> for \<^verbatim>\<open>httputil.SendJSON(writer, st, struct{}{})\<close>, and \<open>Panic\<close> when the handler
  panics (the wrapper that recovers from it is outside this file). A handler that writes
  returns its reply together with the database it leaves behind; statements run before a panic
  stay applied. Such a handler takes a clock \<open>clk\<close>: \<open>clk k\<close> is the server time at which its
  \<open>k\<close>-th write statement, counted from 0 in source order, runs (the value of \<^verbatim>\<open>datetime('now')\<close>
  and of a \<^verbatim>\<open>current_timestamp\<close> default in that statement). Failures of the storage engine
  other than the constraint violations written out below are not modelled.
\<close>

datatype 'a reply = SendJSON status 'a | SendEmpty status | Panic

section \<open>Library functions the handlers call\<close>

text \<open>\<^verbatim>\<open>sort.Slice(xs, less)\<close>: modelled as insertion sort by the \<^verbatim>\<open>less\<close> function. Go leaves the order of
  elements that compare equal unspecified; the model keeps them in their original order.
  The same function orders the rows of an \<^verbatim>\<open>order by\<close> clause, where SQL leaves the order of
  rows with equal keys unspecified as well.\<close>

fun sort_insert :: "('a \<Rightarrow> 'a \<Rightarrow> bool) \<Rightarrow> 'a \<Rightarrow> 'a list \<Rightarrow> 'a list" where
  "sort_insert lt x [] = [x]"
| "sort_insert lt x (y # ys) =
     (if lt y x then y # sort_insert lt x ys else x # y # ys)"

definition sort_Slice :: "('a \<Rightarrow> 'a \<Rightarrow> bool) \<Rightarrow> 'a list \<Rightarrow> 'a list" where
  "sort_Slice lt xs = foldr (sort_insert lt) xs []"

text \<open>\<^verbatim>\<open>rows.Scan(&d1, ..., &dn)\<close> into string destinations, its error ignored as the handlers do:
  columns are copied left to right; at the first NULL column the conversion fails and Scan
  returns, so that destination and all later ones keep the values they had.\<close>

fun Scan :: "string option list \<Rightarrow> string list \<Rightarrow> string list" where
  "Scan (Some v # cols) (d # dest) = v # Scan cols dest"
| "Scan cols dest = dest"

text \<open>\<^verbatim>\<open>strings.Split(s, sep)\<close> for a one-byte separator: the pieces between the separators,
  \<open>n + 1\<close> of them for \<open>n\<close> separators, empty pieces included.\<close>

fun strings_Split :: "string \<Rightarrow> char \<Rightarrow> string list" where
  "strings_Split [] sep = [[]]"
| "strings_Split (c # cs) sep =
     (if c = sep then [] # strings_Split cs sep
      else (case strings_Split cs sep of
              [] \<Rightarrow> [[c]]
            | p # ps \<Rightarrow> (c # p) # ps))"

text \<open>\<^verbatim>\<open>strings.Join(elems, sep)\<close>\<close>

fun strings_Join :: "string list \<Rightarrow> string \<Rightarrow> string" where
  "strings_Join [] sep = []"
| "strings_Join [e] sep = e"
| "strings_Join (e # es) sep = e @ sep @ strings_Join es sep"

text \<open>\<^verbatim>\<open>sort.Strings\<close>\<close>

definition sort_Strings :: "string list \<Rightarrow> string list" where
  "sort_Strings xs = sort_Slice (\<lambda>a b. a < b) xs"

text \<open>Decimal text of an integer: what \<^verbatim>\<open>%d\<close> prints, and what SQLite stores when an integer
  is bound to a column of text affinity.\<close>

definition digit_char :: "nat \<Rightarrow> char" where
  "digit_char d = ''0123456789'' ! d"

fun digits_of :: "nat \<Rightarrow> string" where
  "digits_of n = (if n < 10 then [digit_char n] else digits_of (n div 10) @ [digit_char (n mod 10)])"

declare digits_of.simps [simp del]

definition Itoa :: "int \<Rightarrow> string" where
  "Itoa i = (if i < 0 then CHR ''-'' # digits_of (nat (- i)) else digits_of (nat i))"

text \<open>\<^verbatim>\<open>strconv.ParseInt(s, 10, 32)\<close>, \<open>None\<close> for either of its errors: an optional sign, then
  one or more decimal digits (syntax error otherwise), the value within the signed 32-bit
  range (range error otherwise).\<close>

definition digit_val :: "char \<Rightarrow> nat option" where
  "digit_val c =
     map_of [(CHR ''0'', 0), (CHR ''1'', 1), (CHR ''2'', 2), (CHR ''3'', 3), (CHR ''4'', 4),
             (CHR ''5'', 5), (CHR ''6'', 6), (CHR ''7'', 7), (CHR ''8'', 8), (CHR ''9'', 9)] c"

fun ParseUint :: "string \<Rightarrow> nat \<Rightarrow> nat option" where
  "ParseUint [] acc = Some acc"
| "ParseUint (c # cs) acc =
     (case digit_val c of None \<Rightarrow> None | Some d \<Rightarrow> ParseUint cs (10 * acc + d))"

definition ParseInt32 :: "string \<Rightarrow> int option" where
  "ParseInt32 s =
     (if s = [] then None
      else let neg = (hd s = CHR ''-'');
               s1 = (if hd s = CHR ''+'' \<or> hd s = CHR ''-'' then tl s else s)
           in if s1 = [] then None
              else case ParseUint s1 0 of
                     None \<Rightarrow> None
                   | Some un \<Rightarrow>
                       if \<not> neg \<and> un \<ge> 2 ^ 31 then None
                       else if neg \<and> un > 2 ^ 31 then None
                       else Some (if neg then - int un else int un))"

text \<open>
  A column declared \<^verbatim>\<open>timestamp\<close> does not reach \<^verbatim>\<open>Scan\<close> as the stored text. The SQLite driver
  parses the text of such a column into a time, trying its list of layouts in turn and falling
  back to the zero time, and \<^verbatim>\<open>Scan\<close> into a string formats that time as RFC 3339 in UTC.
  \<open>scan_time\<close> gives the string for the two shapes SQLite itself writes: the text of
  \<^verbatim>\<open>current_timestamp\<close> and \<^verbatim>\<open>datetime('now')\<close>, \<^verbatim>\<open>YYYY-MM-DD HH:MM:SS\<close>, becomes
  \<^verbatim>\<open>YYYY-MM-DDTHH:MM:SSZ\<close>, and the text of \<^verbatim>\<open>date('now', ...)\<close>, \<^verbatim>\<open>YYYY-MM-DD\<close>, becomes
  \<^verbatim>\<open>YYYY-MM-DDT00:00:00Z\<close>, each only when its fields are in range, as \<^verbatim>\<open>time.Parse\<close> demands.
  What the driver makes of any other text (its layouts with fractions of a second, a zone or no
  seconds, then the zero time) is the parameter \<open>fallback\<close>. A NULL column stays NULL.
\<close>

definition days_in :: "nat \<Rightarrow> nat \<Rightarrow> nat" where
  "days_in month year =
     (if month = 2 then
        (if year mod 4 = 0 \<and> (year mod 100 \<noteq> 0 \<or> year mod 400 = 0) then 29 else 28)
      else if month = 4 \<or> month = 6 \<or> month = 9 \<or> month = 11 then 30
      else 31)"

definition is_date :: "string \<Rightarrow> bool" where
  "is_date s \<longleftrightarrow>
     length s = 10 \<and> s ! 4 = CHR ''-'' \<and> s ! 7 = CHR ''-'' \<and>
     (case ParseUint (take 4 s) 0 of
        None \<Rightarrow> False
      | Some year \<Rightarrow>
          (case ParseUint (take 2 (drop 5 s)) 0 of
             None \<Rightarrow> False
           | Some month \<Rightarrow>
               (case ParseUint (take 2 (drop 8 s)) 0 of
                  None \<Rightarrow> False
                | Some day \<Rightarrow> 1 \<le> month \<and> month \<le> 12 \<and> 1 \<le> day \<and> day \<le> days_in month year)))"

definition is_clock :: "string \<Rightarrow> bool" where
  "is_clock s \<longleftrightarrow>
     length s = 8 \<and> s ! 2 = CHR '':'' \<and> s ! 5 = CHR '':'' \<and>
     (case ParseUint (take 2 s) 0 of
        None \<Rightarrow> False
      | Some hour \<Rightarrow>
          (case ParseUint (take 2 (drop 3 s)) 0 of
             None \<Rightarrow> False
           | Some minute \<Rightarrow>
               (case ParseUint (take 2 (drop 6 s)) 0 of
                  None \<Rightarrow> False
                | Some second \<Rightarrow> hour < 24 \<and> minute < 60 \<and> second < 60)))"

definition is_datetime :: "string \<Rightarrow> bool" where
  "is_datetime s \<longleftrightarrow>
     length s = 19 \<and> is_date (take 10 s) \<and> s ! 10 = CHR '' '' \<and> is_clock (drop 11 s)"

definition scan_time :: "(string \<Rightarrow> string) \<Rightarrow> string \<Rightarrow> string" where
  "scan_time fallback s =
     (if is_datetime s then take 10 s @ ''T'' @ drop 11 s @ ''Z''
      else if is_date s then s @ ''T00:00:00Z''
      else fallback s)"

text \<open>
  \<^verbatim>\<open>req.ParseForm()\<close> and \<^verbatim>\<open>req.FormValue\<close> for a request without a form body. \<open>query\<close> is the
  query string of the URL cut into its \<^verbatim>\<open>key=value\<close> pairs, still percent-encoded.
  \<open>QueryUnescape\<close> is \<^verbatim>\<open>url.QueryUnescape\<close>: \<^verbatim>\<open>%\<close> with two hexadecimal digits is the byte they
  name, \<^verbatim>\<open>+\<close> is a space, and a \<^verbatim>\<open>%\<close> with anything else after it is an error (\<open>None\<close>).
  \<open>ParseForm\<close> fails when a key or a value fails to unescape; \<open>FormValue\<close> is the first value
  stored under the key, or the empty string.
\<close>

definition unhex :: "char \<Rightarrow> nat option" where
  "unhex c =
     (case digit_val c of
        Some d \<Rightarrow> Some d
      | None \<Rightarrow>
          map_of (zip ''abcdef'' [10, 11, 12, 13, 14, 15] @ zip ''ABCDEF'' [10, 11, 12, 13, 14, 15]) c)"

fun QueryUnescape :: "string \<Rightarrow> string option" where
  "QueryUnescape [] = Some []"
| "QueryUnescape (c # cs) =
     (if c = CHR ''%'' then
        (case cs of
           h # l # rest \<Rightarrow>
             (case unhex h of
                None \<Rightarrow> None
              | Some a \<Rightarrow>
                  (case unhex l of
                     None \<Rightarrow> None
                   | Some b \<Rightarrow> map_option ((#) (char_of (16 * a + b))) (QueryUnescape rest)))
         | _ \<Rightarrow> None)
      else map_option ((#) (if c = CHR ''+'' then CHR '' '' else c)) (QueryUnescape cs))"

fun ParseForm :: "(string \<times> string) list \<Rightarrow> (string \<times> string) list option" where
  "ParseForm [] = Some []"
| "ParseForm ((k, v) # query) =
     (case QueryUnescape k of
        None \<Rightarrow> None
      | Some key \<Rightarrow>
          (case QueryUnescape v of
             None \<Rightarrow> None
           | Some val \<Rightarrow> map_option ((#) (key, val)) (ParseForm query)))"

declare QueryUnescape.simps [simp del] ParseForm.simps [simp del]

definition FormValue :: "(string \<times> string) list \<Rightarrow> string \<Rightarrow> string" where
  "FormValue form key = (case map_of form key of None \<Rightarrow> '''' | Some v \<Rightarrow> v)"

section \<open>Statements\<close>

text \<open>\<^verbatim>\<open>insert into events (event, email, value) values (?, ?, ?)\<close>; \<open>now\<close> is the default
  \<^verbatim>\<open>current_timestamp\<close> of column \<^verbatim>\<open>ts\<close>.\<close>

definition insert_into_events ::
  "string \<Rightarrow> string \<Rightarrow> string \<Rightarrow> string \<Rightarrow> database \<Rightarrow> database" where
  "insert_into_events event email val now db =
     db\<lparr>tbl_events := tbl_events db @
        [\<lparr>events_event = event, events_email = email, events_value = val, events_ts = now\<rparr>]\<rparr>"

text \<open>\<^verbatim>\<open>select email from certs where fingerprint=?\<close>\<close>

definition select_email_from_certs_where_fingerprint :: "string \<Rightarrow> database \<Rightarrow> string list" where
  "select_email_from_certs_where_fingerprint fp db =
     map certs_email (filter (\<lambda>c. certs_fingerprint c = fp) (tbl_certs db))"

text \<open>\<^verbatim>\<open>update certs set revoked=datetime('now') where fingerprint=?\<close>\<close>

definition update_certs_set_revoked_where_fingerprint :: "string \<Rightarrow> string \<Rightarrow> database \<Rightarrow> database" where
  "update_certs_set_revoked_where_fingerprint now fp db =
     db\<lparr>tbl_certs :=
        map (\<lambda>c. if certs_fingerprint c = fp then c\<lparr>certs_revoked := Some now\<rparr> else c) (tbl_certs db)\<rparr>"

text \<open>\<^verbatim>\<open>select email, fingerprint, created, expires, revoked, desc from certs where fingerprint=?\<close>\<close>

definition select_from_certs_where_fingerprint :: "string \<Rightarrow> database \<Rightarrow> certs_row list" where
  "select_from_certs_where_fingerprint fp db = filter (\<lambda>c. certs_fingerprint c = fp) (tbl_certs db)"

text \<open>\<^verbatim>\<open>select fingerprint, created, expires, desc, revoked from certs where email=?\<close>\<close>

definition select_from_certs_where_email :: "string \<Rightarrow> database \<Rightarrow> certs_row list" where
  "select_from_certs_where_email email db = filter (\<lambda>c. certs_email c = email) (tbl_certs db)"

text \<open>\<^verbatim>\<open>select fingerprint from certs where email=?\<close>\<close>

definition select_fingerprint_from_certs_where_email :: "string \<Rightarrow> database \<Rightarrow> string list" where
  "select_fingerprint_from_certs_where_email email db =
     map certs_fingerprint (filter (\<lambda>c. certs_email c = email) (tbl_certs db))"

text \<open>\<^verbatim>\<open>update certs set revoked=datetime('now') where email=?\<close>\<close>

definition update_certs_set_revoked_where_email :: "string \<Rightarrow> string \<Rightarrow> database \<Rightarrow> database" where
  "update_certs_set_revoked_where_email now email db =
     db\<lparr>tbl_certs :=
        map (\<lambda>c. if certs_email c = email then c\<lparr>certs_revoked := Some now\<rparr> else c) (tbl_certs db)\<rparr>"

text \<open>\<^verbatim>\<open>insert into certs (email, fingerprint, desc, expires) values (?, ?, ?, date('now','+N day'))\<close>.
  \<open>created\<close> takes its default \<^verbatim>\<open>current_timestamp\<close>, \<open>revoked\<close> its default NULL. The statement
  fails (\<open>None\<close>) when the fingerprint is already in the table (\<^verbatim>\<open>unique\<close>) or when the date
  expression yields NULL (\<^verbatim>\<open>expires ... not null\<close>).\<close>

definition insert_into_certs ::
  "string \<Rightarrow> string \<Rightarrow> string \<Rightarrow> string option \<Rightarrow> string \<Rightarrow> database \<Rightarrow> database option" where
  "insert_into_certs email fp description expires now db =
     (case expires of
        None \<Rightarrow> None
      | Some ex \<Rightarrow>
          if fp \<in> set (map certs_fingerprint (tbl_certs db)) then None
          else Some (db\<lparr>tbl_certs := tbl_certs db @
                 [\<lparr>certs_email = email, certs_fingerprint = fp, certs_desc = Some description,
                   certs_created = now, certs_expires = ex, certs_revoked = None\<rparr>]\<rparr>))"

text \<open>\<^verbatim>\<open>select created from totp where email=?\<close>\<close>

definition select_created_from_totp_where_email :: "string \<Rightarrow> database \<Rightarrow> string list" where
  "select_created_from_totp_where_email email db =
     map totp_created (filter (\<lambda>t. totp_email t = email) (tbl_totp db))"

text \<open>\<^verbatim>\<open>select email from totp where email=?\<close>\<close>

definition select_email_from_totp_where_email :: "string \<Rightarrow> database \<Rightarrow> string list" where
  "select_email_from_totp_where_email email db =
     map totp_email (filter (\<lambda>t. totp_email t = email) (tbl_totp db))"

text \<open>\<^verbatim>\<open>insert or replace into totp (email, seed, updated) values (?, ?, datetime('now'))\<close>.
  SQLite resolves the conflict on the unique \<open>email\<close> by deleting the row that is there and
  inserting the new one; \<open>created\<close> is not among the columns given, so the new row takes its
  default \<^verbatim>\<open>current_timestamp\<close>, which within one statement is the value of \<^verbatim>\<open>datetime('now')\<close>.
  The handler passes a third argument (the email again); the statement has two placeholders
  and the driver binds the first two arguments.\<close>

definition insert_or_replace_into_totp :: "string \<Rightarrow> string \<Rightarrow> string \<Rightarrow> database \<Rightarrow> database" where
  "insert_or_replace_into_totp email seed now db =
     db\<lparr>tbl_totp := filter (\<lambda>t. totp_email t \<noteq> email) (tbl_totp db) @
        [\<lparr>totp_email = email, totp_seed = seed, totp_created = now, totp_updated = now\<rparr>]\<rparr>"

text \<open>\<^verbatim>\<open>delete from totp where email=?\<close>\<close>

definition delete_from_totp_where_email :: "string \<Rightarrow> database \<Rightarrow> database" where
  "delete_from_totp_where_email email db =
     db\<lparr>tbl_totp := filter (\<lambda>t. totp_email t \<noteq> email) (tbl_totp db)\<rparr>"

text \<open>\<^verbatim>\<open>delete from events\<close>\<close>

definition delete_from_events :: "database \<Rightarrow> database" where
  "delete_from_events db = db\<lparr>tbl_events := []\<rparr>"

text \<open>\<^verbatim>\<open>select event, email, value, ts from events [where ts < ?] order by ts desc\<close>\<close>

definition select_from_events_order_by_ts_desc :: "string option \<Rightarrow> database \<Rightarrow> events_row list" where
  "select_from_events_order_by_ts_desc bound db =
     sort_Slice (\<lambda>a b. events_ts b < events_ts a)
       (case bound of
          None \<Rightarrow> tbl_events db
        | Some b \<Rightarrow> filter (\<lambda>e. events_ts e < b) (tbl_events db))"

text \<open>\<^verbatim>\<open>insert or replace into settings (key, value) values (?, ?)\<close>\<close>

definition insert_or_replace_into_settings :: "string \<Rightarrow> string \<Rightarrow> string \<Rightarrow> database \<Rightarrow> database" where
  "insert_or_replace_into_settings k v now db =
     db\<lparr>tbl_settings := filter (\<lambda>r. settings_key r \<noteq> k) (tbl_settings db) @
        [\<lparr>settings_key = k, settings_value = v, settings_modified = now\<rparr>]\<rparr>"

text \<open>\<^verbatim>\<open>select email from whitelist order by email\<close>\<close>

definition select_email_from_whitelist_order_by_email :: "database \<Rightarrow> string list" where
  "select_email_from_whitelist_order_by_email db =
     sort_Slice (\<lambda>a b. a < b) (map whitelist_email (tbl_whitelist db))"

text \<open>\<^verbatim>\<open>select ... from totp as t, certs as c where t.email=c.email\<close>\<close>

definition select_from_totp_certs_join :: "database \<Rightarrow> (totp_row \<times> certs_row) list" where
  "select_from_totp_certs_join db =
     concat (map (\<lambda>t. map (\<lambda>c. (t, c)) (filter (\<lambda>c. totp_email t = certs_email c) (tbl_certs db)))
               (tbl_totp db))"

section \<open>Settings\<close>

record settings =
  ServiceName :: string
  ClientLimit :: int
  IssuedCertDuration :: int
  WhitelistedDomains :: "string list"
  WhitelistedUsers :: "string list"

text \<open>The loop of \<^verbatim>\<open>loadSettings\<close> over the rows of \<^verbatim>\<open>select key, value from settings\<close>;
  \<open>None\<close> is the \<^verbatim>\<open>panic(err)\<close> after a failed \<^verbatim>\<open>ParseInt\<close>.\<close>

fun loadSettings_rows :: "settings_row list \<Rightarrow> settings \<Rightarrow> settings option" where
  "loadSettings_rows [] ret = Some ret"
| "loadSettings_rows (r # rs) ret =
     (let k = settings_key r; v = settings_value r in
      if k = ''ServiceName'' then loadSettings_rows rs (ret\<lparr>ServiceName := v\<rparr>)
      else if k = ''ClientLimit'' then
        (case ParseInt32 v of
           Some tmp \<Rightarrow> loadSettings_rows rs (ret\<lparr>ClientLimit := tmp\<rparr>)
         | None \<Rightarrow> None)
      else if k = ''IssuedCertDuration'' then
        (case ParseInt32 v of
           Some tmp \<Rightarrow> loadSettings_rows rs (ret\<lparr>IssuedCertDuration := tmp\<rparr>)
         | None \<Rightarrow> None)
      else if k = ''WhitelistedDomains'' then
        loadSettings_rows rs
          (ret\<lparr>WhitelistedDomains :=
             sort_Strings (WhitelistedDomains ret @ filter (\<lambda>d. d \<noteq> '''') (strings_Split v CHR '' ''))\<rparr>)
      else loadSettings_rows rs ret)"

text \<open>The default service name is \<^verbatim>\<open>Bifro\<close>, the two bytes of a combining diaeresis in UTF-8
  (CC 88), \<^verbatim>\<open>st VPN\<close>, as the source file has it.\<close>

definition default_settings :: settings where
  "default_settings =
     \<lparr>ServiceName = ''Bifro'' @ [CHR 0xCC, CHR 0x88] @ ''st VPN'', ClientLimit = 2,
      IssuedCertDuration = 90, WhitelistedDomains = [], WhitelistedUsers = []\<rparr>"

definition loadSettings :: "database \<Rightarrow> settings option" where
  "loadSettings db =
     (case loadSettings_rows (tbl_settings db) default_settings of
        None \<Rightarrow> None
      | Some ret \<Rightarrow>
          Some (ret\<lparr>WhitelistedUsers :=
                  WhitelistedUsers ret @
                  filter (\<lambda>email. email \<noteq> '''') (select_email_from_whitelist_order_by_email db)\<rparr>))"

text \<open>The storage condition under which \<open>loadSettings\<close> does not panic: every stored
  \<^verbatim>\<open>ClientLimit\<close> and \<^verbatim>\<open>IssuedCertDuration\<close> value is accepted by \<open>ParseInt32\<close>.\<close>

definition settings_readable :: "database \<Rightarrow> bool" where
  "settings_readable db \<longleftrightarrow>
     list_all (\<lambda>r. settings_key r = ''ClientLimit'' \<or> settings_key r = ''IssuedCertDuration''
                    \<longrightarrow> ParseInt32 (settings_value r) \<noteq> None)
       (tbl_settings db)"

definition storeSettings :: "(nat \<Rightarrow> string) \<Rightarrow> settings \<Rightarrow> database \<Rightarrow> database" where
  "storeSettings clk s db =
     (let db1 = insert_or_replace_into_settings ''ServiceName'' (ServiceName s) (clk 0) db;
          db2 = insert_or_replace_into_settings ''IssuedCertDuration'' (Itoa (IssuedCertDuration s)) (clk 1) db1;
          db3 = insert_or_replace_into_settings ''ClientLimit'' (Itoa (ClientLimit s)) (clk 2) db2
      in insert_or_replace_into_settings ''WhitelistedDomains''
           (strings_Join (WhitelistedDomains s) '' '') (clk 3) db3)"

section \<open>certHandler, DELETE /cert/<fingerprint>\<close>

text \<open>\<open>fp\<close> is \<^verbatim>\<open>extractSegment(req.URL.Path, 2)\<close>, as is \<open>email\<close> in the handlers below.\<close>

definition certHandler_DELETE :: "(nat \<Rightarrow> string) \<Rightarrow> string \<Rightarrow> database \<Rightarrow> unit reply \<times> database" where
  "certHandler_DELETE clk fp db =
     (if fp = '''' then (SendEmpty StatusBadRequest, db)
      else case select_email_from_certs_where_fingerprint fp db of
        [] \<Rightarrow> (SendEmpty StatusOK, db)
      | email # _ \<Rightarrow>
          (let db1 = update_certs_set_revoked_where_fingerprint (clk 0) fp db;
               db2 = insert_into_events ''certificate revoked'' email fp (clk 1) db1
           in (SendEmpty StatusOK, db2)))"

section \<open>certHandler, GET /cert/<fingerprint>\<close>

text \<open>The anonymous result struct \<^verbatim>\<open>{Email, Fingerprint, Created, Expires, Revoked, Description}\<close>.\<close>

record cert_res =
  res_Email :: string
  res_Fingerprint :: string
  res_Created :: string
  res_Expires :: string
  res_Revoked :: string
  res_Description :: string

definition certHandler_GET :: "(string \<Rightarrow> string) \<Rightarrow> string \<Rightarrow> database \<Rightarrow> cert_res reply" where
  "certHandler_GET fallback fp db =
     (if fp = '''' then SendEmpty StatusBadRequest
      else case select_from_certs_where_fingerprint fp db of
        [] \<Rightarrow> SendEmpty StatusNotFound
      | [r] \<Rightarrow>
          (let vs = Scan [Some (certs_email r), Some (certs_fingerprint r),
                          Some (scan_time fallback (certs_created r)),
                          Some (scan_time fallback (certs_expires r)),
                          map_option (scan_time fallback) (certs_revoked r), certs_desc r]
                         ['''', '''', '''', '''', '''', '''']
           in SendJSON StatusOK
                \<lparr>res_Email = vs ! 0, res_Fingerprint = vs ! 1, res_Created = vs ! 2,
                 res_Expires = vs ! 3, res_Revoked = vs ! 4, res_Description = vs ! 5\<rparr>)
      | _ \<Rightarrow> SendEmpty StatusInternalServerError)"

section \<open>userHandler\<close>

text \<open>The structs \<^verbatim>\<open>cert\<close> and \<^verbatim>\<open>user\<close> of the handlers (\<open>UserCreated\<close> is the field \<^verbatim>\<open>Created\<close>
  of \<^verbatim>\<open>user\<close>).\<close>

record cert =
  Fingerprint :: string
  Created :: string
  Expires :: string
  Revoked :: string
  Description :: string

record user =
  Email :: string
  UserCreated :: string
  ActiveCerts :: "cert list"
  RevokedCerts :: "cert list"

subsection \<open>GET /user/<email>\<close>

text \<open>The row loop appends each certificate to \<^verbatim>\<open>ActiveCerts\<close> when its \<^verbatim>\<open>Revoked\<close> is empty and
  to \<^verbatim>\<open>RevokedCerts\<close> otherwise: the two filters below, in row order.\<close>

definition userHandler_GET :: "(string \<Rightarrow> string) \<Rightarrow> string \<Rightarrow> database \<Rightarrow> user reply" where
  "userHandler_GET fallback email db =
     (if email = '''' then SendEmpty StatusBadRequest
      else case select_created_from_totp_where_email email db of
        [] \<Rightarrow> SendEmpty StatusNotFound
      | [created] \<Rightarrow>
          (let cs = map (\<lambda>r. let vs = Scan [Some (certs_fingerprint r),
                                             Some (scan_time fallback (certs_created r)),
                                             Some (scan_time fallback (certs_expires r)),
                                             certs_desc r,
                                             map_option (scan_time fallback) (certs_revoked r)]
                                            ['''', '''', '''', '''', '''']
                              in \<lparr>Fingerprint = vs ! 0, Created = vs ! 1, Expires = vs ! 2,
                                  Revoked = vs ! 4, Description = vs ! 3\<rparr>)
                       (select_from_certs_where_email email db)
           in SendJSON StatusOK
                \<lparr>Email = email, UserCreated = scan_time fallback created,
                 ActiveCerts = sort_Slice (\<lambda>a b. Description a < Description b)
                                 (filter (\<lambda>c. Revoked c = '''') cs),
                 RevokedCerts = sort_Slice (\<lambda>a b. Description a < Description b)
                                  (filter (\<lambda>c. Revoked c \<noteq> '''') cs)\<rparr>)
      | _ \<Rightarrow> SendEmpty StatusInternalServerError)"

subsection \<open>PUT /user/<email>\<close>

text \<open>
  The TOTP collaborator: \<open>totp_Generate issuer account\<close> is \<^verbatim>\<open>totp.Generate\<close>, \<open>None\<close> when it
  returns an error. Of the key it returns, \<open>Secret\<close> is \<^verbatim>\<open>key.Secret()\<close> and \<open>Image\<close> is what
  \<^verbatim>\<open>key.Image(200, 200)\<close> gives, PNG- and base64-encoded, \<open>None\<close> when it returns an error.
\<close>

record totp_key =
  Secret :: string
  Image :: "string option"

record totp_res =
  totp_res_Email :: string
  TOTPURL :: string

definition userHandler_PUT ::
  "(string \<Rightarrow> string \<Rightarrow> totp_key option) \<Rightarrow> (nat \<Rightarrow> string) \<Rightarrow> string \<Rightarrow> database
     \<Rightarrow> totp_res reply \<times> database" where
  "userHandler_PUT totp_Generate clk email db =
     (if email = '''' then (SendEmpty StatusBadRequest, db)
      else case loadSettings db of
        None \<Rightarrow> (Panic, db)
      | Some settings \<Rightarrow>
          (case totp_Generate (ServiceName settings) email of
             None \<Rightarrow> (Panic, db)
           | Some key \<Rightarrow>
               (let db1 = insert_or_replace_into_totp email (Secret key) (clk 0) db;
                    db2 = insert_into_events ''TOTP set'' email '''' (clk 1) db1
                in case Image key of
                     None \<Rightarrow> (Panic, db2)
                   | Some img \<Rightarrow>
                       (SendJSON StatusOK
                          \<lparr>totp_res_Email = email, TOTPURL = ''data:image/png;base64,'' @ img\<rparr>,
                        db2))))"

subsection \<open>DELETE /user/<email>\<close>

definition userHandler_DELETE ::
  "(nat \<Rightarrow> string) \<Rightarrow> string \<Rightarrow> database \<Rightarrow> string list reply \<times> database" where
  "userHandler_DELETE clk email db =
     (if email = '''' then (SendEmpty StatusBadRequest, db)
      else
        (let fps = select_fingerprint_from_certs_where_email email db;
             db1 = (if length fps > 0 then update_certs_set_revoked_where_email (clk 0) email db else db);
             db2 = delete_from_totp_where_email email db1;
             db3 = insert_into_events ''user deleted'' email
                     (Itoa (int (length fps)) @ '' certs revoked'') (clk 2) db2
         in (SendJSON StatusOK fps, db3)))"

section \<open>certsHandler\<close>

subsection \<open>GET /certs\<close>

text \<open>
  The row loop. \<open>users\<close> is the Go map from email to \<^verbatim>\<open>*user\<close>, kept as an association list; a
  pointer to a \<^verbatim>\<open>user\<close> is the key of its entry, \<open>None\<close> the nil pointer. The loop body declares
  \<^verbatim>\<open>var u *user\<close>, which is nil; the \<^verbatim>\<open>u\<close> of \<^verbatim>\<open>if u, ok := users[email]; !ok { ... }\<close> is a new
  variable whose scope is that \<^verbatim>\<open>if\<close> statement, so the assignments inside it do not reach the
  outer \<^verbatim>\<open>u\<close>. The appends that follow go through the outer \<^verbatim>\<open>u\<close>; through a nil pointer they
  panic (\<open>None\<close>).
\<close>

fun certsHandler_GET_rows ::
  "(string \<Rightarrow> string) \<Rightarrow> (totp_row \<times> certs_row) list \<Rightarrow> (string \<times> user) list
     \<Rightarrow> (string \<times> user) list option" where
  "certsHandler_GET_rows fallback [] users = Some users"
| "certsHandler_GET_rows fallback (row # rows) users =
     (let vs = Scan [Some (totp_email (fst row)), Some (scan_time fallback (totp_created (fst row))),
                     Some (certs_fingerprint (snd row)),
                     Some (scan_time fallback (certs_created (snd row))),
                     Some (scan_time fallback (certs_expires (snd row))),
                     map_option (scan_time fallback) (certs_revoked (snd row)),
                     certs_desc (snd row)]
                    ['''', '''', '''', '''', '''', '''', ''''];
          email = vs ! 0;
          created = vs ! 1;
          c = \<lparr>Fingerprint = vs ! 2, Created = vs ! 3, Expires = vs ! 4, Revoked = vs ! 5,
               Description = vs ! 6\<rparr>;
          u = (None :: string option);
          users1 = (case map_of users email of
                      Some _ \<Rightarrow> users
                    | None \<Rightarrow> users @ [(email, \<lparr>Email = email, UserCreated = created,
                                                ActiveCerts = [], RevokedCerts = []\<rparr>)])
      in case u of
           None \<Rightarrow> None
         | Some p \<Rightarrow>
             certsHandler_GET_rows fallback rows
               (map (\<lambda>(k, usr).
                       if k = p then
                         (k, if Revoked c \<noteq> ''''
                             then usr\<lparr>ActiveCerts := ActiveCerts usr @ [c]\<rparr>
                             else usr\<lparr>RevokedCerts := RevokedCerts usr @ [c]\<rparr>)
                       else (k, usr))
                  users1))"

definition certsHandler_GET_all :: "(string \<Rightarrow> string) \<Rightarrow> database \<Rightarrow> user list reply" where
  "certsHandler_GET_all fallback db =
     (case certsHandler_GET_rows fallback (select_from_totp_certs_join db) [] of
        None \<Rightarrow> Panic
      | Some users \<Rightarrow>
          SendJSON StatusOK
            (sort_Slice (\<lambda>a b. Email a < Email b)
               (map (\<lambda>(k, usr).
                       usr\<lparr>ActiveCerts := sort_Slice (\<lambda>a b. Description a < Description b) (ActiveCerts usr),
                           RevokedCerts := sort_Slice (\<lambda>a b. Description a < Description b) (RevokedCerts usr)\<rparr>)
                  users)))"

subsection \<open>POST /certs/<email>\<close>

text \<open>
  \<open>body\<close> is the request body as \<^verbatim>\<open>httputil.PopulateFromBody\<close> decodes it, \<open>None\<close> when that fails.
  \<open>sign duration org cn\<close> stands for the collaborators between the existence check and the
  insert: serial allocation, loading the authority, \<^verbatim>\<open>CreateClientKeypair\<close> for the subject
  with organisation \<open>org\<close> and common name \<open>cn\<close>, the fingerprint, the PEM export, reading the
  shared secret and rendering the template. It is \<open>Some (fp, ovpn)\<close>, the fingerprint and the
  base64 text of the rendered bundle, or \<open>None\<close> when any of them fails, which panics. All of
  them run before the first write. \<open>date_now n\<close> is SQLite's \<^verbatim>\<open>date('now','+n day')\<close>.
\<close>

record issue_body =
  body_Email :: string
  body_Description :: string

definition certsHandler_POST ::
  "(int \<Rightarrow> string \<Rightarrow> string \<Rightarrow> (string \<times> string) option) \<Rightarrow> (int \<Rightarrow> string option) \<Rightarrow> (nat \<Rightarrow> string)
     \<Rightarrow> string \<Rightarrow> issue_body option \<Rightarrow> database \<Rightarrow> string reply \<times> database" where
  "certsHandler_POST sign date_now clk email body db =
     (if email = '''' then (SendEmpty StatusBadRequest, db)
      else case body of
        None \<Rightarrow> (SendEmpty StatusBadRequest, db)
      | Some reqBody \<Rightarrow>
          if email \<noteq> body_Email reqBody then (SendEmpty StatusBadRequest, db)
          else if body_Description reqBody = '''' then (SendEmpty StatusBadRequest, db)
          else case select_email_from_totp_where_email email db of
            [] \<Rightarrow> (SendEmpty StatusNotFound, db)
          | _ # _ # _ \<Rightarrow> (Panic, db)
          | [_] \<Rightarrow>
              (case loadSettings db of
                 None \<Rightarrow> (Panic, db)
               | Some s \<Rightarrow>
                   (case sign (IssuedCertDuration s) (ServiceName s) email of
                      None \<Rightarrow> (Panic, db)
                    | Some (fp, ovpn) \<Rightarrow>
                        (case insert_into_certs email fp (body_Description reqBody)
                                (date_now (IssuedCertDuration s)) (clk 0) db of
                           None \<Rightarrow> (Panic, db)
                         | Some db1 \<Rightarrow>
                             (SendJSON StatusCreated (''data:image/ovpn;base64,'' @ ovpn),
                              insert_into_events ''certificate issued'' email
                                (fp @ '' - '' @ body_Description reqBody) (clk 1) db1)))))"

section \<open>eventsHandler, GET and DELETE /events\<close>

datatype http_method = GET | PUT | POST | DELETE

record event =
  Event :: string
  EventEmail :: string
  Value :: string
  Timestamp :: string

text \<open>\<^verbatim>\<open>rows.Scan(&ev.Event, &ev.Email, &ev.Value, &ev.Timestamp)\<close>; no column of \<^verbatim>\<open>events\<close> is
  nullable, and \<^verbatim>\<open>ts\<close> is a timestamp column.\<close>

definition event_of_row :: "(string \<Rightarrow> string) \<Rightarrow> events_row \<Rightarrow> event" where
  "event_of_row fallback r =
     \<lparr>Event = events_event r, EventEmail = events_email r, Value = events_value r,
      Timestamp = scan_time fallback (events_ts r)\<rparr>"

text \<open>
  \<open>query\<close> is the query string of the request as pairs; \<^verbatim>\<open>req.ParseForm()\<close> comes first and
  the handler panics on its error. \<open>before\<close> is \<^verbatim>\<open>req.FormValue("before")\<close>, empty when the
  parameter is absent. \<open>time_Parse\<close> is \<^verbatim>\<open>time.Parse("2006-01-02T15:04:05Z", _)\<close>, \<open>None\<close> when it
  returns an error, and \<open>time_Format\<close> is \<^verbatim>\<open>t.Format("2006-01-02 15:04:05")\<close>. The handler sends
  its reply before it clears the log. The wrapper admits GET and DELETE only; the handler
  itself clears on DELETE and treats every other method as GET.
\<close>

definition eventsHandler ::
  "(string \<Rightarrow> 't option) \<Rightarrow> ('t \<Rightarrow> string) \<Rightarrow> (string \<Rightarrow> string) \<Rightarrow> (nat \<Rightarrow> string) \<Rightarrow> http_method
     \<Rightarrow> (string \<times> string) list \<Rightarrow> database \<Rightarrow> event list reply \<times> database" where
  "eventsHandler time_Parse time_Format fallback clk m query db =
     (case ParseForm query of
        None \<Rightarrow> (Panic, db)
      | Some form \<Rightarrow>
          (let before = FormValue form ''before'' in
           case (if before = '''' then Some (take 25 (select_from_events_order_by_ts_desc None db))
                 else if before = ''all'' then Some (select_from_events_order_by_ts_desc None db)
                 else case time_Parse before of
                        None \<Rightarrow> None
                      | Some t \<Rightarrow>
                          Some (take 25 (select_from_events_order_by_ts_desc (Some (time_Format t)) db))) of
             None \<Rightarrow> (SendEmpty StatusBadRequest, db)
           | Some rows \<Rightarrow>
               (let events = sort_Slice (\<lambda>i j. Timestamp j < Timestamp i)
                               (map (event_of_row fallback) rows)
                in if m = DELETE then
                     (SendJSON StatusOK events,
                      insert_into_events ''events log reset'' ''''
                        (Itoa (int (length events)) @ '' events cleared'') (clk 1)
                        (delete_from_events db))
                   else (SendJSON StatusOK events, db))))"

text \<open>The audit entries of one kind in the log.\<close>

definition audit :: "string \<Rightarrow> database \<Rightarrow> events_row list" where
  "audit event db = filter (\<lambda>e. events_event e = event) (tbl_events db)"

section \<open>Concrete states\<close>

definition empty_db :: database where
  "empty_db = \<lparr>tbl_certs = [], tbl_totp = [], tbl_events = [], tbl_settings = [], tbl_whitelist = []\<rparr>"

definition clock_march :: "nat \<Rightarrow> string" where
  "clock_march k = ''2018-03-01 12:00:00''"

definition clock_april :: "nat \<Rightarrow> string" where
  "clock_april k = ''2018-04-01 09:30:00''"

definition cert_laptop :: certs_row where
  "cert_laptop =
     \<lparr>certs_email = ''alice@example.com'', certs_fingerprint = ''fp-laptop'',
      certs_desc = Some ''laptop'', certs_created = ''2018-01-10 08:00:00'',
      certs_expires = ''2018-04-10'', certs_revoked = None\<rparr>"

definition cert_phone :: certs_row where
  "cert_phone =
     \<lparr>certs_email = ''alice@example.com'', certs_fingerprint = ''fp-phone'',
      certs_desc = Some ''phone'', certs_created = ''2018-01-11 08:00:00'',
      certs_expires = ''2018-04-11'', certs_revoked = Some ''2018-02-01 10:00:00''\<rparr>"

definition totp_alice :: totp_row where
  "totp_alice =
     \<lparr>totp_email = ''alice@example.com'', totp_seed = ''SEED0'',
      totp_created = ''2018-01-01 00:00:00'', totp_updated = ''2018-01-01 00:00:00''\<rparr>"

definition db_alice :: database where
  "db_alice = empty_db\<lparr>tbl_certs := [cert_laptop, cert_phone], tbl_totp := [totp_alice]\<rparr>"

definition cert_orphan :: certs_row where
  "cert_orphan =
     \<lparr>certs_email = ''bob@example.com'', certs_fingerprint = ''fp-bob'',
      certs_desc = Some ''desktop'', certs_created = ''2017-12-01 08:00:00'',
      certs_expires = ''2018-03-01'', certs_revoked = Some ''2018-01-05 10:00:00''\<rparr>"

definition db_orphan :: database where
  "db_orphan = empty_db\<lparr>tbl_certs := [cert_orphan]\<rparr>"

definition db_bad_limit :: database where
  "db_bad_limit =
     db_alice\<lparr>tbl_settings :=
       [\<lparr>settings_key = ''ClientLimit'', settings_value = ''4294967296'',
         settings_modified = ''2018-02-01 00:00:00''\<rparr>]\<rparr>"

definition totp_fixed :: "string \<Rightarrow> string \<Rightarrow> totp_key option" where
  "totp_fixed issuer account = Some \<lparr>Secret = ''SEED1'', Image = Some ''aW1hZ2U=''\<rparr>"

definition sign_fixed :: "int \<Rightarrow> string \<Rightarrow> string \<Rightarrow> (string \<times> string) option" where
  "sign_fixed duration org cn = Some (''fp-new'', ''b3Zwbg=='')"

definition date_fixed :: "int \<Rightarrow> string option" where
  "date_fixed n = Some ''2018-05-30''"

definition event_enrolled :: events_row where
  "event_enrolled =
     \<lparr>events_event = ''TOTP set'', events_email = ''alice@example.com'', events_value = '''',
      events_ts = ''2018-01-01 00:00:00''\<rparr>"

definition event_issued :: events_row where
  "event_issued =
     \<lparr>events_event = ''certificate issued'', events_email = ''alice@example.com'',
      events_value = ''fp-laptop - laptop'', events_ts = ''2018-01-10 08:00:00''\<rparr>"

definition event_revoked :: events_row where
  "event_revoked =
     \<lparr>events_event = ''certificate revoked'', events_email = ''alice@example.com'',
      events_value = ''fp-phone'', events_ts = ''2018-02-01 10:00:00''\<rparr>"

definition db_events :: database where
  "db_events = db_alice\<lparr>tbl_events := [event_enrolled, event_issued, event_revoked]\<rparr>"

definition db_long_log :: database where
  "db_long_log = empty_db\<lparr>tbl_events := replicate 26 event_enrolled\<rparr>"

definition parse_one :: "string \<Rightarrow> string option" where
  "parse_one before =
     (if before = ''2018-01-15T00:00:00Z'' then Some ''2018-01-15 00:00:00'' else None)"

definition format_one :: "string \<Rightarrow> string" where
  "format_one t = t"

definition db_whitelist :: database where
  "db_whitelist =
     db_alice\<lparr>tbl_whitelist :=
       [\<lparr>whitelist_email = ''bob@example.com'', whitelist_modified = ''2018-01-03 00:00:00''\<rparr>,
        \<lparr>whitelist_email = ''alice@example.com'', whitelist_modified = ''2018-01-04 00:00:00''\<rparr>]\<rparr>"

definition settings_small :: settings where
  "settings_small =
     \<lparr>ServiceName = ''VPN'', ClientLimit = 3, IssuedCertDuration = 30,
      WhitelistedDomains = [''example.com'', ''example.org''],
      WhitelistedUsers = [''mallory@example.com'']\<rparr>"

definition settings_big_limit :: settings where
  "settings_big_limit =
     \<lparr>ServiceName = ''VPN'', ClientLimit = 2147483648, IssuedCertDuration = 30,
      WhitelistedDomains = [''example.com'', ''example.org''], WhitelistedUsers = []\<rparr>"

definition fallback_zero :: "string \<Rightarrow> string" where
  "fallback_zero s = ''0001-01-01T00:00:00Z''"

section \<open>Auxiliary facts\<close>

lemma filter_unique_key:
  "distinct (map f xs) \<Longrightarrow> x \<in> set xs \<Longrightarrow> filter (\<lambda>y. f y = f x) xs = [x]"
proof (induction xs)
  case Nil
  then show ?case by simp
next
  case (Cons a xs)
  show ?case
  proof (cases "a = x")
    case True
    with Cons.prems have "\<forall>y\<in>set xs. f y \<noteq> f x" by (auto simp: image_iff)
    then have "filter (\<lambda>y. f y = f x) xs = []" by (simp add: filter_empty_conv)
    with True show ?thesis by simp
  next
    case False
    with Cons.prems have "x \<in> set xs" "f a \<noteq> f x" by (auto simp: image_iff)
    with Cons show ?thesis by simp
  qed
qed

lemma filter_map_preserved:
  "(\<And>x. P (h x) = P x) \<Longrightarrow> filter P (map h xs) = map h (filter P xs)"
  by (induction xs) simp_all

section \<open>Revocation and the audit log\<close>

lemma select_email_revoked_by_fingerprint:
  "select_email_from_certs_where_fingerprint fp (update_certs_set_revoked_where_fingerprint now fp' db)
     = select_email_from_certs_where_fingerprint fp db"
proof -
  let ?h = "\<lambda>c. if certs_fingerprint c = fp' then c\<lparr>certs_revoked := Some now\<rparr> else c"
  have "filter (\<lambda>c. certs_fingerprint c = fp) (map ?h (tbl_certs db))
        = map ?h (filter (\<lambda>c. certs_fingerprint c = fp) (tbl_certs db))"
    by (rule filter_map_preserved) simp
  moreover have "map certs_email (map ?h ys) = map certs_email ys" for ys
    by (induction ys) simp_all
  ultimately show ?thesis
    by (simp add: select_email_from_certs_where_fingerprint_def
        update_certs_set_revoked_where_fingerprint_def)
qed

lemma select_email_unique:
  assumes "schema_ok db" "c \<in> set (tbl_certs db)"
  shows "select_email_from_certs_where_fingerprint (certs_fingerprint c) db = [certs_email c]"
  using filter_unique_key [of certs_fingerprint "tbl_certs db" c] assms
  by (simp add: select_email_from_certs_where_fingerprint_def schema_ok_def)

lemma certHandler_DELETE_known:
  assumes "schema_ok db" "c \<in> set (tbl_certs db)" "certs_fingerprint c = fp" "fp \<noteq> ''''"
  shows "certHandler_DELETE clk fp db =
           (SendEmpty StatusOK,
            insert_into_events ''certificate revoked'' (certs_email c) fp (clk 1)
              (update_certs_set_revoked_where_fingerprint (clk 0) fp db))"
  using assms select_email_unique [of db c]
  by (simp add: certHandler_DELETE_def)

text \<open>
  C2, as amended. Revoke does not look at the revoked column: for a fingerprint in the
  certificate store (non-empty, as the handler requires) every call answers 200 and appends one
  "certificate revoked" event for the owning email, so two calls in succession append two.
\<close>

theorem revoke_twice_appends_two_events:
  assumes "schema_ok db" and "c \<in> set (tbl_certs db)" and "certs_fingerprint c = fp" and "fp \<noteq> ''''"
  shows "fst (certHandler_DELETE clk1 fp db) = SendEmpty StatusOK \<and>
         tbl_events (snd (certHandler_DELETE clk1 fp db)) =
           tbl_events db @
           [\<lparr>events_event = ''certificate revoked'', events_email = certs_email c,
             events_value = fp, events_ts = clk1 1\<rparr>] \<and>
         fst (certHandler_DELETE clk2 fp (snd (certHandler_DELETE clk1 fp db))) = SendEmpty StatusOK \<and>
         tbl_events (snd (certHandler_DELETE clk2 fp (snd (certHandler_DELETE clk1 fp db)))) =
           tbl_events db @
           [\<lparr>events_event = ''certificate revoked'', events_email = certs_email c,
             events_value = fp, events_ts = clk1 1\<rparr>,
            \<lparr>events_event = ''certificate revoked'', events_email = certs_email c,
             events_value = fp, events_ts = clk2 1\<rparr>]"
proof -
  let ?db1 = "insert_into_events ''certificate revoked'' (certs_email c) fp (clk1 1)
                (update_certs_set_revoked_where_fingerprint (clk1 0) fp db)"
  have first: "certHandler_DELETE clk1 fp db = (SendEmpty StatusOK, ?db1)"
    using assms by (rule certHandler_DELETE_known)
  have "select_email_from_certs_where_fingerprint fp ?db1 =
        select_email_from_certs_where_fingerprint fp (update_certs_set_revoked_where_fingerprint (clk1 0) fp db)"
    by (simp add: select_email_from_certs_where_fingerprint_def insert_into_events_def)
  then have sel: "select_email_from_certs_where_fingerprint fp ?db1 = [certs_email c]"
    using select_email_unique [OF assms(1,2)] assms(3)
    by (simp add: select_email_revoked_by_fingerprint)
  have second: "certHandler_DELETE clk2 fp ?db1 =
      (SendEmpty StatusOK,
       insert_into_events ''certificate revoked'' (certs_email c) fp (clk2 1)
         (update_certs_set_revoked_where_fingerprint (clk2 0) fp ?db1))"
    using sel assms(4) by (simp add: certHandler_DELETE_def)
  show ?thesis
    unfolding first snd_conv fst_conv second
    by (simp add: insert_into_events_def update_certs_set_revoked_where_fingerprint_def)
qed

theorem revoke_twice_appends_two_events_witness:
  "schema_ok db_alice \<and> cert_laptop \<in> set (tbl_certs db_alice) \<and>
   certs_fingerprint cert_laptop = ''fp-laptop'' \<and> ''fp-laptop'' \<noteq> '''' \<and>
   tbl_events (snd (certHandler_DELETE clock_april ''fp-laptop''
                 (snd (certHandler_DELETE clock_march ''fp-laptop'' db_alice)))) =
     [\<lparr>events_event = ''certificate revoked'', events_email = ''alice@example.com'',
       events_value = ''fp-laptop'', events_ts = ''2018-03-01 12:00:00''\<rparr>,
      \<lparr>events_event = ''certificate revoked'', events_email = ''alice@example.com'',
       events_value = ''fp-laptop'', events_ts = ''2018-04-01 09:30:00''\<rparr>]"
proof -
  have h1: "schema_ok db_alice" by (simp add: schema_ok_def empty_db_def clock_march_def clock_april_def cert_laptop_def cert_phone_def totp_alice_def db_alice_def)
  have h2: "cert_laptop \<in> set (tbl_certs db_alice)" by (simp add: empty_db_def clock_march_def clock_april_def cert_laptop_def cert_phone_def totp_alice_def db_alice_def)
  have h3: "certs_fingerprint cert_laptop = ''fp-laptop''" by (simp add: empty_db_def clock_march_def clock_april_def cert_laptop_def cert_phone_def totp_alice_def db_alice_def)
  have h4: "''fp-laptop'' \<noteq> ''''" by simp
  from revoke_twice_appends_two_events [OF h1 h2 h3 h4, of clock_march clock_april]
  show ?thesis using h1 h2 h3 by (simp add: empty_db_def clock_march_def clock_april_def cert_laptop_def cert_phone_def totp_alice_def db_alice_def)
qed

text \<open>C2 as stated fails: the second call does change the audit log.\<close>

theorem revoke_twice_counterexample:
  "tbl_events (snd (certHandler_DELETE clock_april ''fp-laptop''
                 (snd (certHandler_DELETE clock_march ''fp-laptop'' db_alice)))) \<noteq>
   tbl_events (snd (certHandler_DELETE clock_march ''fp-laptop'' db_alice)) \<and>
   length (audit ''certificate revoked''
     (snd (certHandler_DELETE clock_april ''fp-laptop''
            (snd (certHandler_DELETE clock_march ''fp-laptop'' db_alice))))) = 2"
  by (simp add: certHandler_DELETE_def select_email_from_certs_where_fingerprint_def
      update_certs_set_revoked_where_fingerprint_def insert_into_events_def audit_def empty_db_def clock_march_def clock_april_def cert_laptop_def cert_phone_def totp_alice_def db_alice_def)

lemma Itoa_0: "Itoa 0 = ''0''"
  by (simp add: Itoa_def digits_of.simps digit_char_def)

lemma Itoa_1: "Itoa 1 = ''1''"
  by (simp add: Itoa_def digits_of.simps digit_char_def)

section \<open>Removing an identity\<close>

lemma userHandler_DELETE_reply:
  "email \<noteq> '''' \<Longrightarrow>
   fst (userHandler_DELETE clk email db) =
     SendJSON StatusOK (map certs_fingerprint (filter (\<lambda>c. certs_email c = email) (tbl_certs db)))"
  by (simp add: userHandler_DELETE_def Let_def select_fingerprint_from_certs_where_email_def)

lemma userHandler_DELETE_events:
  "email \<noteq> '''' \<Longrightarrow>
   tbl_events (snd (userHandler_DELETE clk email db)) =
     tbl_events db @
     [\<lparr>events_event = ''user deleted'', events_email = email,
       events_value = Itoa (int (length (filter (\<lambda>c. certs_email c = email) (tbl_certs db))))
                        @ '' certs revoked'',
       events_ts = clk 2\<rparr>]"
  by (simp add: userHandler_DELETE_def Let_def select_fingerprint_from_certs_where_email_def
      insert_into_events_def delete_from_totp_where_email_def update_certs_set_revoked_where_email_def)

lemma userHandler_DELETE_totp:
  "email \<noteq> '''' \<Longrightarrow>
   tbl_totp (snd (userHandler_DELETE clk email db)) = filter (\<lambda>t. totp_email t \<noteq> email) (tbl_totp db)"
  by (simp add: userHandler_DELETE_def Let_def select_fingerprint_from_certs_where_email_def
      insert_into_events_def delete_from_totp_where_email_def update_certs_set_revoked_where_email_def)

lemma userHandler_DELETE_certs:
  "email \<noteq> '''' \<Longrightarrow>
   tbl_certs (snd (userHandler_DELETE clk email db)) =
     map (\<lambda>c. if certs_email c = email then c\<lparr>certs_revoked := Some (clk 0)\<rparr> else c) (tbl_certs db)"
proof -
  assume ne: "email \<noteq> ''''"
  let ?h = "\<lambda>c. if certs_email c = email then c\<lparr>certs_revoked := Some (clk 0)\<rparr> else c"
  have none: "filter (\<lambda>c. certs_email c = email) (tbl_certs db) = [] \<Longrightarrow> map ?h (tbl_certs db) = tbl_certs db"
    by (simp add: filter_empty_conv map_idI)
  show ?thesis
    using ne none
    by (simp add: userHandler_DELETE_def Let_def select_fingerprint_from_certs_where_email_def
        insert_into_events_def delete_from_totp_where_email_def update_certs_set_revoked_where_email_def)
qed

lemma userHandler_DELETE_other_tables:
  "tbl_settings (snd (userHandler_DELETE clk email db)) = tbl_settings db"
  "tbl_whitelist (snd (userHandler_DELETE clk email db)) = tbl_whitelist db"
  by (simp_all add: userHandler_DELETE_def Let_def insert_into_events_def
      delete_from_totp_where_email_def update_certs_set_revoked_where_email_def)

text \<open>
  C10, as amended. For a non-empty email with no identity row, Remove answers 200, never 404,
  with the fingerprints of all certificate rows the email still owns, and appends a
  "user deleted" event whose value counts them; the identity, settings and whitelist tables are
  unchanged. When the email owns no certificate row either, the list is empty, the value is
  "0 certs revoked" and the certificate table is unchanged as well.
\<close>

theorem remove_absent_identity:
  assumes "email \<noteq> ''''" and "email \<notin> set (map totp_email (tbl_totp db))"
  shows "fst (userHandler_DELETE clk email db) =
           SendJSON StatusOK (map certs_fingerprint (filter (\<lambda>c. certs_email c = email) (tbl_certs db))) \<and>
         tbl_events (snd (userHandler_DELETE clk email db)) =
           tbl_events db @
           [\<lparr>events_event = ''user deleted'', events_email = email,
             events_value = Itoa (int (length (filter (\<lambda>c. certs_email c = email) (tbl_certs db))))
                              @ '' certs revoked'',
             events_ts = clk 2\<rparr>] \<and>
         tbl_totp (snd (userHandler_DELETE clk email db)) = tbl_totp db \<and>
         tbl_settings (snd (userHandler_DELETE clk email db)) = tbl_settings db \<and>
         tbl_whitelist (snd (userHandler_DELETE clk email db)) = tbl_whitelist db \<and>
         (email \<notin> set (map certs_email (tbl_certs db)) \<longrightarrow>
            fst (userHandler_DELETE clk email db) = SendJSON StatusOK [] \<and>
            tbl_events (snd (userHandler_DELETE clk email db)) =
              tbl_events db @
              [\<lparr>events_event = ''user deleted'', events_email = email,
                events_value = ''0 certs revoked'', events_ts = clk 2\<rparr>] \<and>
            tbl_certs (snd (userHandler_DELETE clk email db)) = tbl_certs db)"
proof -
  have totp: "filter (\<lambda>t. totp_email t \<noteq> email) (tbl_totp db) = tbl_totp db"
    using assms(2) by (auto simp: filter_id_conv)
  have none: "filter (\<lambda>c. certs_email c = email) (tbl_certs db) = []"
    if "email \<notin> set (map certs_email (tbl_certs db))"
    using that by (auto simp: filter_empty_conv)
  have certs: "tbl_certs (snd (userHandler_DELETE clk email db)) = tbl_certs db"
    if "email \<notin> set (map certs_email (tbl_certs db))"
    unfolding userHandler_DELETE_certs [OF assms(1)] using that by (intro map_idI) auto
  show ?thesis
    using assms(1) totp none certs
    by (simp add: userHandler_DELETE_reply userHandler_DELETE_events userHandler_DELETE_totp
        userHandler_DELETE_other_tables Itoa_0)
qed

theorem remove_absent_identity_witness:
  "''carol@example.com'' \<noteq> '''' \<and>
   ''carol@example.com'' \<notin> set (map totp_email (tbl_totp db_alice)) \<and>
   ''carol@example.com'' \<notin> set (map certs_email (tbl_certs db_alice)) \<and>
   fst (userHandler_DELETE clock_march ''carol@example.com'' db_alice) = SendJSON StatusOK [] \<and>
   tbl_events (snd (userHandler_DELETE clock_march ''carol@example.com'' db_alice)) =
     [\<lparr>events_event = ''user deleted'', events_email = ''carol@example.com'',
       events_value = ''0 certs revoked'', events_ts = ''2018-03-01 12:00:00''\<rparr>]"
proof -
  have h1: "''carol@example.com'' \<noteq> ''''" by simp
  have h2: "''carol@example.com'' \<notin> set (map totp_email (tbl_totp db_alice))"
    by (simp add: empty_db_def clock_march_def cert_laptop_def cert_phone_def totp_alice_def db_alice_def)
  have h3: "''carol@example.com'' \<notin> set (map certs_email (tbl_certs db_alice))"
    by (simp add: empty_db_def clock_march_def cert_laptop_def cert_phone_def totp_alice_def db_alice_def)
  have ev: "tbl_events db_alice = []" by (simp add: empty_db_def clock_march_def cert_laptop_def cert_phone_def totp_alice_def db_alice_def)
  have clk: "clock_march 2 = ''2018-03-01 12:00:00''" by (simp add: clock_march_def)
  from remove_absent_identity [OF h1 h2, of clock_march] h3
  have "fst (userHandler_DELETE clock_march ''carol@example.com'' db_alice) = SendJSON StatusOK [] \<and>
        tbl_events (snd (userHandler_DELETE clock_march ''carol@example.com'' db_alice)) =
          tbl_events db_alice @
          [\<lparr>events_event = ''user deleted'', events_email = ''carol@example.com'',
            events_value = ''0 certs revoked'', events_ts = clock_march 2\<rparr>]"
    by blast
  then show ?thesis using h1 h2 h3 by (simp only: ev clk append_Nil simp_thms)
qed

text \<open>C10 as stated fails for an email whose identity is gone while its certificates remain.\<close>

theorem remove_absent_identity_counterexample:
  "''bob@example.com'' \<notin> set (map totp_email (tbl_totp db_orphan)) \<and>
   fst (userHandler_DELETE clock_march ''bob@example.com'' db_orphan) = SendJSON StatusOK [''fp-bob''] \<and>
   map events_value (tbl_events (snd (userHandler_DELETE clock_march ''bob@example.com'' db_orphan))) =
     [''1 certs revoked'']"
  by (simp add: userHandler_DELETE_reply userHandler_DELETE_events Itoa_1 empty_db_def clock_march_def cert_orphan_def db_orphan_def)

lemma length_filter_split:
  "length (filter P xs) =
   length (filter (\<lambda>x. P x \<and> Q x) xs) + length (filter (\<lambda>x. P x \<and> \<not> Q x) xs)"
  by (induction xs) simp_all

lemma userHandler_GET_absent:
  assumes "email \<noteq> ''''" and "email \<notin> set (map totp_email (tbl_totp db))"
  shows "userHandler_GET fallback email db = SendEmpty StatusNotFound"
proof -
  have "filter (\<lambda>t. totp_email t = email) (tbl_totp db) = []"
    using assms(2) by (auto simp: filter_empty_conv)
  then show ?thesis
    using assms(1) by (simp add: userHandler_GET_def select_created_from_totp_where_email_def)
qed

lemma certHandler_GET_revoked:
  assumes "distinct (map certs_fingerprint certs)" and "c \<in> set certs"
    and "certs_email c = email" and "certs_fingerprint c \<noteq> ''''"
    and "tbl_certs db' =
           map (\<lambda>c. if certs_email c = email then c\<lparr>certs_revoked := Some now\<rparr> else c) certs"
  shows "certHandler_GET fallback (certs_fingerprint c) db' =
           SendJSON StatusOK
             \<lparr>res_Email = email, res_Fingerprint = certs_fingerprint c,
              res_Created = scan_time fallback (certs_created c),
              res_Expires = scan_time fallback (certs_expires c),
              res_Revoked = scan_time fallback now,
              res_Description = (case certs_desc c of None \<Rightarrow> '''' | Some d \<Rightarrow> d)\<rparr>"
proof -
  let ?h = "\<lambda>c. if certs_email c = email then c\<lparr>certs_revoked := Some now\<rparr> else c"
  have "filter (\<lambda>r. certs_fingerprint r = certs_fingerprint c) (map ?h certs) =
        map ?h (filter (\<lambda>r. certs_fingerprint r = certs_fingerprint c) certs)"
    by (rule filter_map_preserved) simp
  also have "\<dots> = [c\<lparr>certs_revoked := Some now\<rparr>]"
    using filter_unique_key [OF assms(1,2)] assms(3) by simp
  finally have sel: "select_from_certs_where_fingerprint (certs_fingerprint c) db' =
      [c\<lparr>certs_revoked := Some now\<rparr>]"
    by (simp add: select_from_certs_where_fingerprint_def assms(5))
  show ?thesis
    using assms(3,4) by (cases "certs_desc c") (simp_all add: certHandler_GET_def sel)
qed

text \<open>
  C4, as amended. For a non-empty email, Remove answers with the fingerprints of all the
  certificate rows the email owns, those revoked earlier included: N + M of them when N are
  active and M already revoked, hence exactly N only when M = 0. Afterwards Describe of the
  identity is NotFound, and Describe of each of those (non-empty) fingerprints answers 200 with
  the certificate. Its created, expires and revoked fields are the driver's renderings of the
  stored created and expires texts and of the time of the removal; for a time of removal as
  SQLite writes it, \<^verbatim>\<open>YYYY-MM-DD HH:MM:SS\<close>, the revoked field is \<^verbatim>\<open>YYYY-MM-DDTHH:MM:SSZ\<close>.
\<close>

theorem remove_revokes_all_certificates:
  assumes "schema_ok db" and "email \<noteq> ''''"
  shows "fst (userHandler_DELETE clk email db) =
           SendJSON StatusOK (map certs_fingerprint (filter (\<lambda>c. certs_email c = email) (tbl_certs db))) \<and>
         length (map certs_fingerprint (filter (\<lambda>c. certs_email c = email) (tbl_certs db))) =
           length (filter (\<lambda>c. certs_email c = email \<and> certs_revoked c = None) (tbl_certs db)) +
           length (filter (\<lambda>c. certs_email c = email \<and> certs_revoked c \<noteq> None) (tbl_certs db)) \<and>
         userHandler_GET fallback email (snd (userHandler_DELETE clk email db)) =
           SendEmpty StatusNotFound \<and>
         (\<forall>c \<in> set (tbl_certs db). certs_email c = email \<and> certs_fingerprint c \<noteq> '''' \<longrightarrow>
            certHandler_GET fallback (certs_fingerprint c) (snd (userHandler_DELETE clk email db)) =
              SendJSON StatusOK
                \<lparr>res_Email = email, res_Fingerprint = certs_fingerprint c,
                 res_Created = scan_time fallback (certs_created c),
                 res_Expires = scan_time fallback (certs_expires c),
                 res_Revoked = scan_time fallback (clk 0),
                 res_Description = (case certs_desc c of None \<Rightarrow> '''' | Some d \<Rightarrow> d)\<rparr>) \<and>
         (is_datetime (clk 0) \<longrightarrow>
            scan_time fallback (clk 0) = take 10 (clk 0) @ ''T'' @ drop 11 (clk 0) @ ''Z'')"
proof (intro conjI ballI impI)
  show "fst (userHandler_DELETE clk email db) =
           SendJSON StatusOK (map certs_fingerprint (filter (\<lambda>c. certs_email c = email) (tbl_certs db)))"
    using assms(2) by (rule userHandler_DELETE_reply)
  show "length (map certs_fingerprint (filter (\<lambda>c. certs_email c = email) (tbl_certs db))) =
           length (filter (\<lambda>c. certs_email c = email \<and> certs_revoked c = None) (tbl_certs db)) +
           length (filter (\<lambda>c. certs_email c = email \<and> certs_revoked c \<noteq> None) (tbl_certs db))"
    using length_filter_split [of "\<lambda>c. certs_email c = email" "tbl_certs db" "\<lambda>c. certs_revoked c = None"]
    by simp
  have "email \<notin> set (map totp_email (tbl_totp (snd (userHandler_DELETE clk email db))))"
    by (auto simp: userHandler_DELETE_totp [OF assms(2)])
  then show "userHandler_GET fallback email (snd (userHandler_DELETE clk email db)) =
      SendEmpty StatusNotFound"
    using assms(2) by (rule userHandler_GET_absent [rotated])
  show "scan_time fallback (clk 0) = take 10 (clk 0) @ ''T'' @ drop 11 (clk 0) @ ''Z''"
    if "is_datetime (clk 0)"
    using that by (simp add: scan_time_def)
next
  fix c
  assume c: "c \<in> set (tbl_certs db)" and "certs_email c = email \<and> certs_fingerprint c \<noteq> ''''"
  then have e: "certs_email c = email" and f: "certs_fingerprint c \<noteq> ''''" by simp_all
  have d: "distinct (map certs_fingerprint (tbl_certs db))"
    using assms(1) by (simp add: schema_ok_def)
  show "certHandler_GET fallback (certs_fingerprint c) (snd (userHandler_DELETE clk email db)) =
              SendJSON StatusOK
                \<lparr>res_Email = email, res_Fingerprint = certs_fingerprint c,
                 res_Created = scan_time fallback (certs_created c),
                 res_Expires = scan_time fallback (certs_expires c),
                 res_Revoked = scan_time fallback (clk 0),
                 res_Description = (case certs_desc c of None \<Rightarrow> '''' | Some d \<Rightarrow> d)\<rparr>"
    by (rule certHandler_GET_revoked [OF d c e f userHandler_DELETE_certs [OF assms(2)]])
qed

lemma scan_time_examples:
  "scan_time fallback ''2018-01-10 08:00:00'' = ''2018-01-10T08:00:00Z''"
  "scan_time fallback ''2018-04-10'' = ''2018-04-10T00:00:00Z''"
  "scan_time fallback ''2018-03-01 12:00:00'' = ''2018-03-01T12:00:00Z''"
  "is_datetime ''2018-03-01 12:00:00''"
  by (simp_all add: scan_time_def is_datetime_def is_date_def is_clock_def days_in_def digit_val_def)

theorem remove_revokes_all_certificates_witness:
  "schema_ok db_alice \<and> ''alice@example.com'' \<noteq> '''' \<and>
   cert_laptop \<in> set (tbl_certs db_alice) \<and>
   certs_email cert_laptop = ''alice@example.com'' \<and> certs_fingerprint cert_laptop \<noteq> '''' \<and>
   is_datetime (clock_march 0) \<and>
   userHandler_GET fallback_zero ''alice@example.com''
     (snd (userHandler_DELETE clock_march ''alice@example.com'' db_alice)) = SendEmpty StatusNotFound \<and>
   certHandler_GET fallback_zero ''fp-laptop''
     (snd (userHandler_DELETE clock_march ''alice@example.com'' db_alice)) =
     SendJSON StatusOK
       \<lparr>res_Email = ''alice@example.com'', res_Fingerprint = ''fp-laptop'',
        res_Created = ''2018-01-10T08:00:00Z'', res_Expires = ''2018-04-10T00:00:00Z'',
        res_Revoked = ''2018-03-01T12:00:00Z'', res_Description = ''laptop''\<rparr>"
proof -
  have h1: "schema_ok db_alice"
    by (simp add: schema_ok_def empty_db_def cert_laptop_def cert_phone_def totp_alice_def db_alice_def)
  have h2: "''alice@example.com'' \<noteq> ''''" by simp
  have h3: "cert_laptop \<in> set (tbl_certs db_alice)"
    by (simp add: empty_db_def db_alice_def)
  have h4: "certs_email cert_laptop = ''alice@example.com'' \<and> certs_fingerprint cert_laptop \<noteq> ''''"
    by (simp add: cert_laptop_def)
  have h5: "is_datetime (clock_march 0)"
    by (simp add: clock_march_def scan_time_examples)
  have fields: "certs_fingerprint cert_laptop = ''fp-laptop''"
    "certs_created cert_laptop = ''2018-01-10 08:00:00''" "certs_expires cert_laptop = ''2018-04-10''"
    "certs_desc cert_laptop = Some ''laptop''" "clock_march 0 = ''2018-03-01 12:00:00''"
    by (simp_all add: clock_march_def cert_laptop_def)
  from remove_revokes_all_certificates [where fallback = fallback_zero and clk = clock_march, OF h1 h2]
    h3 h4
  have "userHandler_GET fallback_zero ''alice@example.com''
          (snd (userHandler_DELETE clock_march ''alice@example.com'' db_alice)) = SendEmpty StatusNotFound \<and>
        certHandler_GET fallback_zero (certs_fingerprint cert_laptop)
          (snd (userHandler_DELETE clock_march ''alice@example.com'' db_alice)) =
          SendJSON StatusOK
            \<lparr>res_Email = ''alice@example.com'', res_Fingerprint = certs_fingerprint cert_laptop,
             res_Created = scan_time fallback_zero (certs_created cert_laptop),
             res_Expires = scan_time fallback_zero (certs_expires cert_laptop),
             res_Revoked = scan_time fallback_zero (clock_march 0),
             res_Description = (case certs_desc cert_laptop of None \<Rightarrow> '''' | Some d \<Rightarrow> d)\<rparr>"
    by blast
  then have "userHandler_GET fallback_zero ''alice@example.com''
          (snd (userHandler_DELETE clock_march ''alice@example.com'' db_alice)) = SendEmpty StatusNotFound \<and>
        certHandler_GET fallback_zero ''fp-laptop''
          (snd (userHandler_DELETE clock_march ''alice@example.com'' db_alice)) =
          SendJSON StatusOK
            \<lparr>res_Email = ''alice@example.com'', res_Fingerprint = ''fp-laptop'',
             res_Created = ''2018-01-10T08:00:00Z'', res_Expires = ''2018-04-10T00:00:00Z'',
             res_Revoked = ''2018-03-01T12:00:00Z'', res_Description = ''laptop''\<rparr>"
    by (simp only: fields scan_time_examples option.case)
  with h1 h2 h3 h4 h5 show ?thesis by blast
qed

text \<open>C4 as stated fails when the identity also owns a certificate revoked earlier: one
  certificate is active, two fingerprints are returned.\<close>

theorem remove_revokes_all_certificates_counterexample:
  "tbl_totp db_alice = [totp_alice] \<and> totp_email totp_alice = ''alice@example.com'' \<and>
   tbl_certs db_alice = [cert_laptop, cert_phone] \<and>
   certs_email cert_laptop = ''alice@example.com'' \<and> certs_revoked cert_laptop = None \<and>
   certs_email cert_phone = ''alice@example.com'' \<and>
   certs_revoked cert_phone = Some ''2018-02-01 10:00:00'' \<and>
   fst (userHandler_DELETE clock_march ''alice@example.com'' db_alice) =
     SendJSON StatusOK [''fp-laptop'', ''fp-phone'']"
  by (simp add: userHandler_DELETE_reply empty_db_def clock_march_def cert_laptop_def cert_phone_def totp_alice_def db_alice_def)

section \<open>Enrollment\<close>

lemma loadSettings_rows_readable:
  "(\<exists>s. loadSettings_rows rs ret = Some s) =
   list_all (\<lambda>r. settings_key r = ''ClientLimit'' \<or> settings_key r = ''IssuedCertDuration''
                  \<longrightarrow> (\<exists>n. ParseInt32 (settings_value r) = Some n)) rs"
proof (induction rs arbitrary: ret)
  case Nil
  then show ?case by simp
next
  case (Cons r rs)
  show ?case
    by (cases "ParseInt32 (settings_value r)") (simp_all add: Let_def Cons.IH)
qed

lemma loadSettings_succeeds_iff: "(\<exists>s. loadSettings db = Some s) \<longleftrightarrow> settings_readable db"
proof -
  have "(\<exists>s. loadSettings db = Some s) \<longleftrightarrow>
        (\<exists>s. loadSettings_rows (tbl_settings db) default_settings = Some s)"
    by (auto simp: loadSettings_def split: option.splits)
  then show ?thesis
    by (simp add: loadSettings_rows_readable settings_readable_def)
qed

lemma userHandler_PUT_db:
  assumes "email \<noteq> ''''" and "loadSettings db = Some s" and "gen (ServiceName s) email = Some key"
  shows "snd (userHandler_PUT gen clk email db) =
           insert_into_events ''TOTP set'' email '''' (clk 1)
             (insert_or_replace_into_totp email (Secret key) (clk 0) db)"
  using assms by (cases "Image key") (simp_all add: userHandler_PUT_def Let_def)

text \<open>
  C3, as amended. Re-enrollment replaces the identity row as a whole: for a non-empty email,
  when the settings load and the TOTP generator succeeds, the email has afterwards exactly one
  identity row, with the new secret as seed and with created and updated both equal to the time
  of the insert, so created is preserved only if that is the time it already held. The rows of
  other emails and the certificate, settings and whitelist tables are unchanged.
\<close>

theorem reenroll_replaces_row:
  assumes "email \<noteq> ''''" and "loadSettings db = Some s" and "gen (ServiceName s) email = Some key"
  shows "filter (\<lambda>t. totp_email t = email) (tbl_totp (snd (userHandler_PUT gen clk email db))) =
           [\<lparr>totp_email = email, totp_seed = Secret key, totp_created = clk 0, totp_updated = clk 0\<rparr>] \<and>
         filter (\<lambda>t. totp_email t \<noteq> email) (tbl_totp (snd (userHandler_PUT gen clk email db))) =
           filter (\<lambda>t. totp_email t \<noteq> email) (tbl_totp db) \<and>
         tbl_certs (snd (userHandler_PUT gen clk email db)) = tbl_certs db \<and>
         tbl_settings (snd (userHandler_PUT gen clk email db)) = tbl_settings db \<and>
         tbl_whitelist (snd (userHandler_PUT gen clk email db)) = tbl_whitelist db"
proof -
  have "filter (\<lambda>t. totp_email t = email) (filter (\<lambda>t. totp_email t \<noteq> email) (tbl_totp db)) = []"
    by (simp add: filter_empty_conv)
  then show ?thesis
    unfolding userHandler_PUT_db [where gen = gen, OF assms]
    by (simp add: insert_into_events_def insert_or_replace_into_totp_def)
qed

lemma loadSettings_db_alice: "loadSettings db_alice = Some default_settings"
  by (simp add: loadSettings_def select_email_from_whitelist_order_by_email_def sort_Slice_def
      default_settings_def empty_db_def cert_laptop_def cert_phone_def totp_alice_def db_alice_def)

theorem reenroll_replaces_row_witness:
  "''alice@example.com'' \<noteq> '''' \<and> loadSettings db_alice = Some default_settings \<and>
   totp_fixed (ServiceName default_settings) ''alice@example.com'' =
     Some \<lparr>Secret = ''SEED1'', Image = Some ''aW1hZ2U=''\<rparr> \<and>
   filter (\<lambda>t. totp_email t = ''alice@example.com'')
     (tbl_totp (snd (userHandler_PUT totp_fixed clock_march ''alice@example.com'' db_alice))) =
     [\<lparr>totp_email = ''alice@example.com'', totp_seed = ''SEED1'',
       totp_created = ''2018-03-01 12:00:00'', totp_updated = ''2018-03-01 12:00:00''\<rparr>]"
proof -
  have h1: "''alice@example.com'' \<noteq> ''''" by simp
  have h3: "totp_fixed (ServiceName default_settings) ''alice@example.com'' =
     Some \<lparr>Secret = ''SEED1'', Image = Some ''aW1hZ2U=''\<rparr>"
    by (simp add: totp_fixed_def)
  from reenroll_replaces_row [where gen = totp_fixed and clk = clock_march, OF h1 loadSettings_db_alice h3]
  show ?thesis using h3 by (simp add: loadSettings_db_alice clock_march_def)
qed

text \<open>C3 as stated fails: the identity created on 2018-01-01 has, after re-enrollment on
  2018-03-01, the later date as its created timestamp.\<close>

theorem reenroll_replaces_row_counterexample:
  "tbl_totp db_alice = [totp_alice] \<and> totp_email totp_alice = ''alice@example.com'' \<and>
   totp_created totp_alice = ''2018-01-01 00:00:00'' \<and>
   tbl_totp (snd (userHandler_PUT totp_fixed clock_march ''alice@example.com'' db_alice)) =
     [\<lparr>totp_email = ''alice@example.com'', totp_seed = ''SEED1'',
       totp_created = ''2018-03-01 12:00:00'', totp_updated = ''2018-03-01 12:00:00''\<rparr>]"
proof -
  have "snd (userHandler_PUT totp_fixed clock_march ''alice@example.com'' db_alice) =
          insert_into_events ''TOTP set'' ''alice@example.com'' '''' (clock_march 1)
            (insert_or_replace_into_totp ''alice@example.com'' ''SEED1'' (clock_march 0) db_alice)"
    by (simp add: userHandler_PUT_def loadSettings_db_alice totp_fixed_def)
  then show ?thesis
    by (simp add: insert_into_events_def insert_or_replace_into_totp_def empty_db_def clock_march_def cert_laptop_def cert_phone_def totp_alice_def db_alice_def totp_fixed_def)
qed

text \<open>
  C5, as amended. For a non-empty email and a store whose \<^verbatim>\<open>ClientLimit\<close> and
  \<^verbatim>\<open>IssuedCertDuration\<close> rows are readable, the settings load, and whenever the TOTP generator
  and the image rendering succeed, EnrollOrRotate answers 200 with the email and the
  provisioning image, stores the new secret for the email and appends one "TOTP set" event.
  For the empty email it answers 400 and changes nothing; for a non-empty email and a store
  whose settings are not readable it panics and changes nothing.
\<close>

theorem enroll_succeeds:
  assumes "email \<noteq> ''''" and "settings_readable db"
  shows "(\<exists>s. loadSettings db = Some s \<and>
           (\<forall>key img. gen (ServiceName s) email = Some key \<and> Image key = Some img \<longrightarrow>
              fst (userHandler_PUT gen clk email db) =
                SendJSON StatusOK
                  \<lparr>totp_res_Email = email, TOTPURL = ''data:image/png;base64,'' @ img\<rparr> \<and>
              tbl_events (snd (userHandler_PUT gen clk email db)) =
                tbl_events db @
                [\<lparr>events_event = ''TOTP set'', events_email = email, events_value = '''',
                  events_ts = clk 1\<rparr>] \<and>
              filter (\<lambda>t. totp_email t = email) (tbl_totp (snd (userHandler_PUT gen clk email db))) =
                [\<lparr>totp_email = email, totp_seed = Secret key, totp_created = clk 0,
                  totp_updated = clk 0\<rparr>])) \<and>
         userHandler_PUT gen clk '''' db = (SendEmpty StatusBadRequest, db) \<and>
         (\<forall>unreadable. \<not> settings_readable unreadable \<longrightarrow>
            userHandler_PUT gen clk email unreadable = (Panic, unreadable))"
proof (intro conjI)
  show "userHandler_PUT gen clk '''' db = (SendEmpty StatusBadRequest, db)"
    by (simp add: userHandler_PUT_def)
  show "\<forall>unreadable. \<not> settings_readable unreadable \<longrightarrow>
           userHandler_PUT gen clk email unreadable = (Panic, unreadable)"
  proof (intro allI impI)
    fix unreadable
    assume "\<not> settings_readable unreadable"
    then have "loadSettings unreadable = None"
      using loadSettings_succeeds_iff [of unreadable] by (cases "loadSettings unreadable") auto
    then show "userHandler_PUT gen clk email unreadable = (Panic, unreadable)"
      using assms(1) by (simp add: userHandler_PUT_def)
  qed
  from assms(2) obtain s where s: "loadSettings db = Some s"
    using loadSettings_succeeds_iff by blast
  have "fst (userHandler_PUT gen clk email db) =
          SendJSON StatusOK \<lparr>totp_res_Email = email, TOTPURL = ''data:image/png;base64,'' @ img\<rparr> \<and>
        tbl_events (snd (userHandler_PUT gen clk email db)) =
          tbl_events db @
          [\<lparr>events_event = ''TOTP set'', events_email = email, events_value = '''',
            events_ts = clk 1\<rparr>] \<and>
        filter (\<lambda>t. totp_email t = email) (tbl_totp (snd (userHandler_PUT gen clk email db))) =
          [\<lparr>totp_email = email, totp_seed = Secret key, totp_created = clk 0, totp_updated = clk 0\<rparr>]"
    if "gen (ServiceName s) email = Some key" and "Image key = Some img" for key img
  proof -
    have "filter (\<lambda>t. totp_email t = email) (filter (\<lambda>t. totp_email t \<noteq> email) (tbl_totp db)) = []"
      by (simp add: filter_empty_conv)
    then show ?thesis
      using assms(1) s that
      by (simp add: userHandler_PUT_def Let_def insert_into_events_def insert_or_replace_into_totp_def)
  qed
  with s show "\<exists>s. loadSettings db = Some s \<and>
           (\<forall>key img. gen (ServiceName s) email = Some key \<and> Image key = Some img \<longrightarrow>
              fst (userHandler_PUT gen clk email db) =
                SendJSON StatusOK
                  \<lparr>totp_res_Email = email, TOTPURL = ''data:image/png;base64,'' @ img\<rparr> \<and>
              tbl_events (snd (userHandler_PUT gen clk email db)) =
                tbl_events db @
                [\<lparr>events_event = ''TOTP set'', events_email = email, events_value = '''',
                  events_ts = clk 1\<rparr>] \<and>
              filter (\<lambda>t. totp_email t = email) (tbl_totp (snd (userHandler_PUT gen clk email db))) =
                [\<lparr>totp_email = email, totp_seed = Secret key, totp_created = clk 0,
                  totp_updated = clk 0\<rparr>])"
    by blast
qed

theorem enroll_succeeds_witness:
  "''alice@example.com'' \<noteq> '''' \<and> settings_readable db_alice \<and>
   loadSettings db_alice = Some default_settings \<and>
   totp_fixed (ServiceName default_settings) ''alice@example.com'' =
     Some \<lparr>Secret = ''SEED1'', Image = Some ''aW1hZ2U=''\<rparr> \<and>
   fst (userHandler_PUT totp_fixed clock_march ''alice@example.com'' db_alice) =
     SendJSON StatusOK
       \<lparr>totp_res_Email = ''alice@example.com'', TOTPURL = ''data:image/png;base64,aW1hZ2U=''\<rparr> \<and>
   tbl_events (snd (userHandler_PUT totp_fixed clock_march ''alice@example.com'' db_alice)) =
     [\<lparr>events_event = ''TOTP set'', events_email = ''alice@example.com'', events_value = '''',
       events_ts = ''2018-03-01 12:00:00''\<rparr>] \<and>
   \<not> settings_readable db_bad_limit \<and>
   userHandler_PUT totp_fixed clock_march ''alice@example.com'' db_bad_limit = (Panic, db_bad_limit)"
proof -
  have h1: "''alice@example.com'' \<noteq> ''''" by simp
  have h2: "settings_readable db_alice" by (simp add: settings_readable_def empty_db_def clock_march_def cert_laptop_def cert_phone_def totp_alice_def db_alice_def totp_fixed_def)
  have h3: "totp_fixed (ServiceName default_settings) ''alice@example.com'' =
     Some \<lparr>Secret = ''SEED1'', Image = Some ''aW1hZ2U=''\<rparr>"
    by (simp add: totp_fixed_def)
  have ev: "tbl_events db_alice = []" by (simp add: empty_db_def clock_march_def cert_laptop_def cert_phone_def totp_alice_def db_alice_def totp_fixed_def)
  from enroll_succeeds [OF h1 h2, of totp_fixed clock_march] loadSettings_db_alice h3
  have "fst (userHandler_PUT totp_fixed clock_march ''alice@example.com'' db_alice) =
          SendJSON StatusOK
            \<lparr>totp_res_Email = ''alice@example.com'',
             TOTPURL = ''data:image/png;base64,'' @ ''aW1hZ2U=''\<rparr> \<and>
        tbl_events (snd (userHandler_PUT totp_fixed clock_march ''alice@example.com'' db_alice)) =
          tbl_events db_alice @
          [\<lparr>events_event = ''TOTP set'', events_email = ''alice@example.com'', events_value = '''',
            events_ts = clock_march 1\<rparr>]"
    by fastforce
  then have p1: "fst (userHandler_PUT totp_fixed clock_march ''alice@example.com'' db_alice) =
          SendJSON StatusOK
            \<lparr>totp_res_Email = ''alice@example.com'', TOTPURL = ''data:image/png;base64,aW1hZ2U=''\<rparr> \<and>
        tbl_events (snd (userHandler_PUT totp_fixed clock_march ''alice@example.com'' db_alice)) =
          [\<lparr>events_event = ''TOTP set'', events_email = ''alice@example.com'', events_value = '''',
            events_ts = ''2018-03-01 12:00:00''\<rparr>]"
    by (simp add: ev clock_march_def)
  have h4: "\<not> settings_readable db_bad_limit"
    by (simp add: settings_readable_def db_bad_limit_def ParseInt32_def digit_val_def)
  from enroll_succeeds [OF h1 h2, of totp_fixed clock_march] h4
  have p2: "userHandler_PUT totp_fixed clock_march ''alice@example.com'' db_bad_limit =
      (Panic, db_bad_limit)"
    by blast
  from h1 h2 h3 loadSettings_db_alice p1 h4 p2 show ?thesis by blast
qed

text \<open>C5 as stated fails in two ways: with a stored \<^verbatim>\<open>ClientLimit\<close> outside the 32-bit range
  (as a settings update with that value leaves it) the handler panics although no collaborator
  failed, and for the empty email it answers 400.\<close>

theorem enroll_succeeds_counterexample:
  "userHandler_PUT totp_fixed clock_march ''alice@example.com'' db_bad_limit = (Panic, db_bad_limit) \<and>
   userHandler_PUT totp_fixed clock_march '''' db_alice = (SendEmpty StatusBadRequest, db_alice)"
proof -
  have "ParseInt32 ''4294967296'' = None"
    by (simp add: ParseInt32_def digit_val_def)
  then have "loadSettings db_bad_limit = None"
    by (simp add: loadSettings_def empty_db_def clock_march_def cert_laptop_def cert_phone_def totp_alice_def db_alice_def db_bad_limit_def totp_fixed_def)
  then show ?thesis
    by (simp add: userHandler_PUT_def)
qed

section \<open>Issuing a certificate\<close>

lemma select_email_from_totp_absent:
  "email \<notin> set (map totp_email (tbl_totp db)) \<Longrightarrow> select_email_from_totp_where_email email db = []"
  by (auto simp: select_email_from_totp_where_email_def filter_empty_conv)

lemma select_email_from_totp_present:
  assumes "schema_ok db" and "email \<in> set (map totp_email (tbl_totp db))"
  shows "select_email_from_totp_where_email email db = [email]"
proof -
  from assms(2) obtain t where t: "t \<in> set (tbl_totp db)" "totp_email t = email" by auto
  have "distinct (map totp_email (tbl_totp db))"
    using assms(1) by (simp add: schema_ok_def)
  from filter_unique_key [OF this t(1)] t(2) show ?thesis
    by (simp add: select_email_from_totp_where_email_def)
qed

text \<open>
  C9, as amended. The description is checked before the identity: an empty description is
  answered 400 with no change of state, whether or not the identity exists. With a non-empty
  email and description, a missing identity is answered 404 with no change of state. With the
  identity present, the settings readable, the signing collaborators succeeding with a
  fingerprint not yet in the ledger and the expiry date computed, the answer is 201, the ledger
  gains the row with the email, fingerprint, description and expiry, and the audit log gains
  one "certificate issued" event.
\<close>

theorem issue_preconditions:
  "(body_Description b = '''' \<longrightarrow>
      certsHandler_POST sign date_now clk emailA (Some b) dbA = (SendEmpty StatusBadRequest, dbA)) \<and>
   (emailB \<noteq> '''' \<and> descB \<noteq> '''' \<and> emailB \<notin> set (map totp_email (tbl_totp dbB)) \<longrightarrow>
      certsHandler_POST sign date_now clk emailB
        (Some \<lparr>body_Email = emailB, body_Description = descB\<rparr>) dbB = (SendEmpty StatusNotFound, dbB)) \<and>
   (schema_ok db \<and> email \<noteq> '''' \<and> description \<noteq> '''' \<and> email \<in> set (map totp_email (tbl_totp db)) \<and>
    loadSettings db = Some s \<and> sign (IssuedCertDuration s) (ServiceName s) email = Some (fp, ovpn) \<and>
    date_now (IssuedCertDuration s) = Some ex \<and> fp \<notin> set (map certs_fingerprint (tbl_certs db)) \<longrightarrow>
      fst (certsHandler_POST sign date_now clk email
             (Some \<lparr>body_Email = email, body_Description = description\<rparr>) db) =
        SendJSON StatusCreated (''data:image/ovpn;base64,'' @ ovpn) \<and>
      tbl_certs (snd (certsHandler_POST sign date_now clk email
             (Some \<lparr>body_Email = email, body_Description = description\<rparr>) db)) =
        tbl_certs db @
        [\<lparr>certs_email = email, certs_fingerprint = fp, certs_desc = Some description,
          certs_created = clk 0, certs_expires = ex, certs_revoked = None\<rparr>] \<and>
      tbl_events (snd (certsHandler_POST sign date_now clk email
             (Some \<lparr>body_Email = email, body_Description = description\<rparr>) db)) =
        tbl_events db @
        [\<lparr>events_event = ''certificate issued'', events_email = email,
          events_value = fp @ '' - '' @ description, events_ts = clk 1\<rparr>])"
proof (intro conjI impI)
  assume "body_Description b = ''''"
  then show "certsHandler_POST sign date_now clk emailA (Some b) dbA = (SendEmpty StatusBadRequest, dbA)"
    by (simp add: certsHandler_POST_def)
next
  assume "emailB \<noteq> '''' \<and> descB \<noteq> '''' \<and> emailB \<notin> set (map totp_email (tbl_totp dbB))"
  then show "certsHandler_POST sign date_now clk emailB
        (Some \<lparr>body_Email = emailB, body_Description = descB\<rparr>) dbB = (SendEmpty StatusNotFound, dbB)"
    using select_email_from_totp_absent [of emailB dbB]
    by (simp add: certsHandler_POST_def)
next
  assume a: "schema_ok db \<and> email \<noteq> '''' \<and> description \<noteq> '''' \<and> email \<in> set (map totp_email (tbl_totp db)) \<and>
    loadSettings db = Some s \<and> sign (IssuedCertDuration s) (ServiceName s) email = Some (fp, ovpn) \<and>
    date_now (IssuedCertDuration s) = Some ex \<and> fp \<notin> set (map certs_fingerprint (tbl_certs db))"
  then have sel: "select_email_from_totp_where_email email db = [email]"
    using select_email_from_totp_present by blast
  have ins: "insert_into_certs email fp description (Some ex) (clk 0) db =
      Some (db\<lparr>tbl_certs := tbl_certs db @
        [\<lparr>certs_email = email, certs_fingerprint = fp, certs_desc = Some description,
          certs_created = clk 0, certs_expires = ex, certs_revoked = None\<rparr>]\<rparr>)"
    using a by (simp add: insert_into_certs_def)
  have run: "certsHandler_POST sign date_now clk email
               (Some \<lparr>body_Email = email, body_Description = description\<rparr>) db =
      (SendJSON StatusCreated (''data:image/ovpn;base64,'' @ ovpn),
       insert_into_events ''certificate issued'' email (fp @ '' - '' @ description) (clk 1)
         (db\<lparr>tbl_certs := tbl_certs db @
            [\<lparr>certs_email = email, certs_fingerprint = fp, certs_desc = Some description,
              certs_created = clk 0, certs_expires = ex, certs_revoked = None\<rparr>]\<rparr>))"
    using a by (simp add: certsHandler_POST_def sel ins)
  show "fst (certsHandler_POST sign date_now clk email
             (Some \<lparr>body_Email = email, body_Description = description\<rparr>) db) =
        SendJSON StatusCreated (''data:image/ovpn;base64,'' @ ovpn)"
    by (simp add: run)
  show "tbl_certs (snd (certsHandler_POST sign date_now clk email
             (Some \<lparr>body_Email = email, body_Description = description\<rparr>) db)) =
        tbl_certs db @
        [\<lparr>certs_email = email, certs_fingerprint = fp, certs_desc = Some description,
          certs_created = clk 0, certs_expires = ex, certs_revoked = None\<rparr>]"
    by (simp add: run insert_into_events_def)
  show "tbl_events (snd (certsHandler_POST sign date_now clk email
             (Some \<lparr>body_Email = email, body_Description = description\<rparr>) db)) =
        tbl_events db @
        [\<lparr>events_event = ''certificate issued'', events_email = email,
          events_value = fp @ '' - '' @ description, events_ts = clk 1\<rparr>]"
    by (simp add: run insert_into_events_def)
qed

theorem issue_preconditions_witness:
  "body_Description \<lparr>body_Email = ''alice@example.com'', body_Description = ''''\<rparr> = '''' \<and>
   certsHandler_POST sign_fixed date_fixed clock_march ''alice@example.com''
     (Some \<lparr>body_Email = ''alice@example.com'', body_Description = ''''\<rparr>) db_alice =
     (SendEmpty StatusBadRequest, db_alice) \<and>
   ''carol@example.com'' \<notin> set (map totp_email (tbl_totp db_alice)) \<and>
   certsHandler_POST sign_fixed date_fixed clock_march ''carol@example.com''
     (Some \<lparr>body_Email = ''carol@example.com'', body_Description = ''tablet''\<rparr>) db_alice =
     (SendEmpty StatusNotFound, db_alice) \<and>
   schema_ok db_alice \<and> ''alice@example.com'' \<in> set (map totp_email (tbl_totp db_alice)) \<and>
   loadSettings db_alice = Some default_settings \<and>
   sign_fixed (IssuedCertDuration default_settings) (ServiceName default_settings) ''alice@example.com'' =
     Some (''fp-new'', ''b3Zwbg=='') \<and>
   date_fixed (IssuedCertDuration default_settings) = Some ''2018-05-30'' \<and>
   ''fp-new'' \<notin> set (map certs_fingerprint (tbl_certs db_alice)) \<and>
   fst (certsHandler_POST sign_fixed date_fixed clock_march ''alice@example.com''
          (Some \<lparr>body_Email = ''alice@example.com'', body_Description = ''tablet''\<rparr>) db_alice) =
     SendJSON StatusCreated ''data:image/ovpn;base64,b3Zwbg=='' \<and>
   tbl_certs (snd (certsHandler_POST sign_fixed date_fixed clock_march ''alice@example.com''
          (Some \<lparr>body_Email = ''alice@example.com'', body_Description = ''tablet''\<rparr>) db_alice)) =
     [cert_laptop, cert_phone,
      \<lparr>certs_email = ''alice@example.com'', certs_fingerprint = ''fp-new'',
       certs_desc = Some ''tablet'', certs_created = ''2018-03-01 12:00:00'',
       certs_expires = ''2018-05-30'', certs_revoked = None\<rparr>] \<and>
   tbl_events (snd (certsHandler_POST sign_fixed date_fixed clock_march ''alice@example.com''
          (Some \<lparr>body_Email = ''alice@example.com'', body_Description = ''tablet''\<rparr>) db_alice)) =
     [\<lparr>events_event = ''certificate issued'', events_email = ''alice@example.com'',
       events_value = ''fp-new - tablet'', events_ts = ''2018-03-01 12:00:00''\<rparr>]"
proof -
  have h1: "body_Description \<lparr>body_Email = ''alice@example.com'', body_Description = ''''\<rparr> = ''''"
    by simp
  have h2: "''carol@example.com'' \<noteq> '''' \<and> ''tablet'' \<noteq> '''' \<and>
            ''carol@example.com'' \<notin> set (map totp_email (tbl_totp db_alice))"
    by (simp add: empty_db_def clock_march_def cert_laptop_def cert_phone_def totp_alice_def db_alice_def sign_fixed_def date_fixed_def)
  have h3: "schema_ok db_alice \<and> ''alice@example.com'' \<noteq> '''' \<and> ''tablet'' \<noteq> '''' \<and>
            ''alice@example.com'' \<in> set (map totp_email (tbl_totp db_alice)) \<and>
            loadSettings db_alice = Some default_settings \<and>
            sign_fixed (IssuedCertDuration default_settings) (ServiceName default_settings)
              ''alice@example.com'' = Some (''fp-new'', ''b3Zwbg=='') \<and>
            date_fixed (IssuedCertDuration default_settings) = Some ''2018-05-30'' \<and>
            ''fp-new'' \<notin> set (map certs_fingerprint (tbl_certs db_alice))"
    by (simp add: loadSettings_db_alice) (simp add: schema_ok_def empty_db_def clock_march_def cert_laptop_def cert_phone_def totp_alice_def db_alice_def sign_fixed_def date_fixed_def)
  have tables: "tbl_certs db_alice = [cert_laptop, cert_phone]" "tbl_events db_alice = []"
    "clock_march 0 = ''2018-03-01 12:00:00''" "clock_march 1 = ''2018-03-01 12:00:00''"
    by (simp_all add: db_alice_def empty_db_def clock_march_def)
  note inst = issue_preconditions [where sign = sign_fixed and date_now = date_fixed and clk = clock_march
      and b = "\<lparr>body_Email = ''alice@example.com'', body_Description = ''''\<rparr>"
      and emailA = "''alice@example.com''" and dbA = db_alice
      and emailB = "''carol@example.com''" and descB = "''tablet''" and dbB = db_alice
      and db = db_alice and email = "''alice@example.com''" and description = "''tablet''"
      and s = default_settings and fp = "''fp-new''" and ovpn = "''b3Zwbg==''" and ex = "''2018-05-30''"]
  from inst h1 have p1: "certsHandler_POST sign_fixed date_fixed clock_march ''alice@example.com''
     (Some \<lparr>body_Email = ''alice@example.com'', body_Description = ''''\<rparr>) db_alice =
     (SendEmpty StatusBadRequest, db_alice)"
    by blast
  from inst h2 have p2: "certsHandler_POST sign_fixed date_fixed clock_march ''carol@example.com''
     (Some \<lparr>body_Email = ''carol@example.com'', body_Description = ''tablet''\<rparr>) db_alice =
     (SendEmpty StatusNotFound, db_alice)"
    by blast
  from inst h3 have p3:
    "fst (certsHandler_POST sign_fixed date_fixed clock_march ''alice@example.com''
          (Some \<lparr>body_Email = ''alice@example.com'', body_Description = ''tablet''\<rparr>) db_alice) =
       SendJSON StatusCreated (''data:image/ovpn;base64,'' @ ''b3Zwbg=='') \<and>
     tbl_certs (snd (certsHandler_POST sign_fixed date_fixed clock_march ''alice@example.com''
          (Some \<lparr>body_Email = ''alice@example.com'', body_Description = ''tablet''\<rparr>) db_alice)) =
       tbl_certs db_alice @
       [\<lparr>certs_email = ''alice@example.com'', certs_fingerprint = ''fp-new'',
         certs_desc = Some ''tablet'', certs_created = clock_march 0,
         certs_expires = ''2018-05-30'', certs_revoked = None\<rparr>] \<and>
     tbl_events (snd (certsHandler_POST sign_fixed date_fixed clock_march ''alice@example.com''
          (Some \<lparr>body_Email = ''alice@example.com'', body_Description = ''tablet''\<rparr>) db_alice)) =
       tbl_events db_alice @
       [\<lparr>events_event = ''certificate issued'', events_email = ''alice@example.com'',
         events_value = ''fp-new'' @ '' - '' @ ''tablet'', events_ts = clock_march 1\<rparr>]"
    by blast
  from p3 have p4:
    "fst (certsHandler_POST sign_fixed date_fixed clock_march ''alice@example.com''
          (Some \<lparr>body_Email = ''alice@example.com'', body_Description = ''tablet''\<rparr>) db_alice) =
       SendJSON StatusCreated ''data:image/ovpn;base64,b3Zwbg=='' \<and>
     tbl_certs (snd (certsHandler_POST sign_fixed date_fixed clock_march ''alice@example.com''
          (Some \<lparr>body_Email = ''alice@example.com'', body_Description = ''tablet''\<rparr>) db_alice)) =
       [cert_laptop, cert_phone,
        \<lparr>certs_email = ''alice@example.com'', certs_fingerprint = ''fp-new'',
         certs_desc = Some ''tablet'', certs_created = ''2018-03-01 12:00:00'',
         certs_expires = ''2018-05-30'', certs_revoked = None\<rparr>] \<and>
     tbl_events (snd (certsHandler_POST sign_fixed date_fixed clock_march ''alice@example.com''
          (Some \<lparr>body_Email = ''alice@example.com'', body_Description = ''tablet''\<rparr>) db_alice)) =
       [\<lparr>events_event = ''certificate issued'', events_email = ''alice@example.com'',
         events_value = ''fp-new - tablet'', events_ts = ''2018-03-01 12:00:00''\<rparr>]"
    by (simp add: tables clock_march_def)
  show ?thesis
    using h1 h2 h3 p1 p2 p4 by blast
qed

text \<open>C9 as stated fails where its two preconditions overlap: with no identity row and an
  empty description the answer is 400, not 404.\<close>

theorem issue_preconditions_counterexample:
  "''carol@example.com'' \<notin> set (map totp_email (tbl_totp db_alice)) \<and>
   fst (certsHandler_POST sign_fixed date_fixed clock_march ''carol@example.com''
          (Some \<lparr>body_Email = ''carol@example.com'', body_Description = ''''\<rparr>) db_alice) \<noteq>
     SendEmpty StatusNotFound \<and>
   certsHandler_POST sign_fixed date_fixed clock_march ''carol@example.com''
     (Some \<lparr>body_Email = ''carol@example.com'', body_Description = ''''\<rparr>) db_alice =
     (SendEmpty StatusBadRequest, db_alice)"
  by (simp add: certsHandler_POST_def) (simp add: empty_db_def clock_march_def cert_laptop_def cert_phone_def totp_alice_def db_alice_def sign_fixed_def date_fixed_def)

section \<open>Sorting\<close>

lemma mset_sort_insert: "mset (sort_insert lt x xs) = add_mset x (mset xs)"
  by (induction xs) simp_all

lemma mset_sort_Slice: "mset (sort_Slice lt xs) = mset xs"
  unfolding sort_Slice_def by (induction xs) (simp_all add: mset_sort_insert)

lemma set_sort_Slice: "set (sort_Slice lt xs) = set xs"
  using mset_sort_Slice [of lt xs] by (metis set_mset_mset)

lemma length_sort_Slice: "length (sort_Slice lt xs) = length xs"
  using mset_sort_Slice [of lt xs] by (metis size_mset)

lemma set_sort_insert: "set (sort_insert lt x xs) = insert x (set xs)"
  using mset_sort_insert [of lt x xs] by (metis set_mset_add_mset_insert set_mset_mset)

lemma sorted_wrt_sort_insert:
  assumes "\<And>a b. lt a b \<Longrightarrow> R a b" and "\<And>a b. \<not> lt a b \<Longrightarrow> R b a"
    and "\<And>a b c. R a b \<Longrightarrow> R b c \<Longrightarrow> R a c" and "sorted_wrt R ys"
  shows "sorted_wrt R (sort_insert lt x ys)"
  using assms(4)
proof (induction ys)
  case Nil
  then show ?case by simp
next
  case (Cons y ys)
  show ?case
  proof (cases "lt y x")
    case True
    with Cons assms(1) show ?thesis by (auto simp: set_sort_insert)
  next
    case False
    then have "R x y" by (rule assms(2))
    with Cons.prems assms(3) have "\<forall>z\<in>set ys. R x z" by auto
    with False \<open>R x y\<close> Cons.prems show ?thesis by simp
  qed
qed

lemma sorted_wrt_sort_Slice:
  assumes "\<And>a b. lt a b \<Longrightarrow> R a b" and "\<And>a b. \<not> lt a b \<Longrightarrow> R b a"
    and "\<And>a b c. R a b \<Longrightarrow> R b c \<Longrightarrow> R a c"
  shows "sorted_wrt R (sort_Slice lt xs)"
  unfolding sort_Slice_def
  by (induction xs) (simp_all add: sorted_wrt_sort_insert [OF assms])

lemma sorted_desc_sort_Slice:
  fixes f :: "'a \<Rightarrow> 'b :: linorder"
  shows "sorted_wrt (\<lambda>a b. f b \<le> f a) (sort_Slice (\<lambda>a b. f b < f a) xs)"
  by (rule sorted_wrt_sort_Slice) auto

lemma sorted_asc_sort_Slice:
  fixes f :: "'a \<Rightarrow> 'b :: linorder"
  shows "sorted_wrt (\<lambda>a b. f a \<le> f b) (sort_Slice (\<lambda>a b. f a < f b) xs)"
  by (rule sorted_wrt_sort_Slice) auto

lemma sorted_wrt_take_drop:
  assumes "sorted_wrt R xs"
  shows "\<forall>a\<in>set (take n xs). \<forall>b\<in>set (drop n xs). R a b"
proof -
  have "sorted_wrt R (take n xs @ drop n xs)" using assms by simp
  then show ?thesis unfolding sorted_wrt_append by blast
qed

section \<open>Listing all certificates\<close>

lemma certsHandler_GET_rows_nil: "certsHandler_GET_rows fallback (row # rows) users = None"
  by (simp add: Let_def)

lemma certsHandler_GET_all_cases:
  "certsHandler_GET_all fallback db =
     (if select_from_totp_certs_join db = [] then SendJSON StatusOK [] else Panic)"
  by (cases "select_from_totp_certs_join db")
     (simp_all add: certsHandler_GET_all_def sort_Slice_def Let_def)

text \<open>
  C1: the failing input. One identity with an active and a revoked certificate: the claim asks
  for one group with the two certificates partitioned; the handler panics on the first row of
  the join, because the \<^verbatim>\<open>user\<close> it appends through is the nil outer variable.
\<close>

theorem list_all_panics:
  "select_from_totp_certs_join db_alice = [(totp_alice, cert_laptop), (totp_alice, cert_phone)] \<and>
   certsHandler_GET_all fallback_zero db_alice = Panic"
proof -
  have "select_from_totp_certs_join db_alice = [(totp_alice, cert_laptop), (totp_alice, cert_phone)]"
    by (simp add: select_from_totp_certs_join_def db_alice_def empty_db_def)
       (simp add: totp_alice_def cert_laptop_def cert_phone_def)
  then show ?thesis
    by (simp add: certsHandler_GET_all_def Let_def)
qed

section \<open>The audit log\<close>

lemma less_append_same_length:
  fixes p q :: "'a :: linorder list"
  shows "length p = length q \<Longrightarrow> (p @ u < q @ v) = (p < q \<or> p = q \<and> u < v)"
  by (induction p q rule: list_induct2) auto

lemma less_same_length_irrefl_suffix:
  fixes p q :: "'a :: linorder list"
  shows "length p = length q \<Longrightarrow> (p @ z < q @ z) = (p < q)"
  by (simp add: less_append_same_length)

lemma scan_time_datetime:
  "is_datetime s \<Longrightarrow> scan_time fallback s = take 10 s @ ''T'' @ drop 11 s @ ''Z''"
  by (simp add: scan_time_def)

lemma datetime_split:
  assumes "is_datetime s"
  shows "s = take 10 s @ '' '' @ drop 11 s" and "length (take 10 s) = 10" and "length (drop 11 s) = 8"
proof -
  from assms have len: "length s = 19" and sp: "s ! 10 = CHR '' ''"
    by (simp_all add: is_datetime_def)
  have "s = take 10 s @ drop 10 s" by simp
  also have "drop 10 s = s ! 10 # drop 11 s"
    using len Cons_nth_drop_Suc [of 10 s] by simp
  finally show "s = take 10 s @ '' '' @ drop 11 s"
    using sp by simp
  show "length (take 10 s) = 10" "length (drop 11 s) = 8"
    using len by simp_all
qed

lemma scan_time_order:
  assumes "is_datetime a" and "is_datetime b"
  shows "(scan_time fallback a < scan_time fallback b) = (a < b)"
proof -
  let ?p = "take 10 a" and ?q = "take 10 b" and ?u = "drop 11 a" and ?v = "drop 11 b"
  have lp: "length ?p = length ?q" and lu: "length ?u = length ?v"
    using datetime_split(2,3) [OF assms(1)] datetime_split(2,3) [OF assms(2)] by simp_all
  have "(scan_time fallback a < scan_time fallback b) =
        (?p @ (CHR ''T'' # ?u @ ''Z'') < ?q @ (CHR ''T'' # ?v @ ''Z''))"
    by (simp add: scan_time_datetime assms)
  also have "\<dots> = (?p < ?q \<or> ?p = ?q \<and> ?u @ ''Z'' < ?v @ ''Z'')"
    by (simp add: less_append_same_length [OF lp])
  also have "\<dots> = (?p < ?q \<or> ?p = ?q \<and> ?u < ?v)"
    by (simp only: less_same_length_irrefl_suffix [OF lu])
  also have "\<dots> = (?p @ (CHR '' '' # ?u) < ?q @ (CHR '' '' # ?v))"
    by (simp add: less_append_same_length [OF lp])
  also have "\<dots> = (a < b)"
    using datetime_split(1) [OF assms(1)] datetime_split(1) [OF assms(2)] by simp
  finally show ?thesis .
qed

lemma page_properties:
  fixes src :: "events_row list" and n :: nat and fallback :: "string \<Rightarrow> string"
  defines "rows \<equiv> sort_Slice (\<lambda>a b. events_ts b < events_ts a) src"
  defines "page \<equiv> take n rows"
  defines "rest \<equiv> drop n rows"
  defines "evs \<equiv> sort_Slice (\<lambda>i j. Timestamp j < Timestamp i) (map (event_of_row fallback) page)"
  shows "length evs = min n (length src)"
    and "sorted_wrt (\<lambda>a b. Timestamp b \<le> Timestamp a) evs"
    and "mset evs = image_mset (event_of_row fallback) (mset page)"
    and "mset page + mset rest = mset src"
    and "\<forall>a\<in>set page. \<forall>b\<in>set rest. events_ts b \<le> events_ts a"
    and "set page \<subseteq> set src"
proof -
  show "length evs = min n (length src)"
    by (simp add: evs_def page_def rows_def length_sort_Slice min.commute)
  show "sorted_wrt (\<lambda>a b. Timestamp b \<le> Timestamp a) evs"
    unfolding evs_def by (rule sorted_desc_sort_Slice)
  show "mset evs = image_mset (event_of_row fallback) (mset page)"
    by (simp add: evs_def mset_sort_Slice)
  have "mset page + mset rest = mset (take n rows @ drop n rows)"
    unfolding page_def rest_def by (simp only: mset_append)
  also have "\<dots> = mset rows"
    by (simp only: append_take_drop_id)
  also have "\<dots> = mset src"
    by (simp add: rows_def mset_sort_Slice)
  finally show "mset page + mset rest = mset src" .
  have "sorted_wrt (\<lambda>a b. events_ts b \<le> events_ts a) rows"
    unfolding rows_def by (rule sorted_desc_sort_Slice)
  from sorted_wrt_take_drop [OF this, of n]
  show "\<forall>a\<in>set page. \<forall>b\<in>set rest. events_ts b \<le> events_ts a"
    by (simp add: page_def rest_def)
  show "set page \<subseteq> set src"
    using set_take_subset [of n rows] by (simp add: page_def rows_def set_sort_Slice)
qed

lemma eventsHandler_unset:
  assumes "ParseForm query = Some form" and "FormValue form ''before'' = ''''"
  shows "eventsHandler P F fallback clk GET query db =
     (SendJSON StatusOK
        (sort_Slice (\<lambda>i j. Timestamp j < Timestamp i)
           (map (event_of_row fallback)
              (take 25 (sort_Slice (\<lambda>a b. events_ts b < events_ts a) (tbl_events db))))),
      db)"
  using assms by (simp add: eventsHandler_def select_from_events_order_by_ts_desc_def)

lemma eventsHandler_all:
  assumes "ParseForm query = Some form" and "FormValue form ''before'' = ''all''"
  shows "eventsHandler P F fallback clk GET query db =
     (SendJSON StatusOK
        (sort_Slice (\<lambda>i j. Timestamp j < Timestamp i)
           (map (event_of_row fallback)
              (sort_Slice (\<lambda>a b. events_ts b < events_ts a) (tbl_events db)))),
      db)"
  using assms by (simp add: eventsHandler_def select_from_events_order_by_ts_desc_def)

lemma eventsHandler_before:
  assumes "ParseForm query = Some form" and "FormValue form ''before'' = before"
    and "before \<noteq> ''''" and "before \<noteq> ''all''" and "P before = Some t"
  shows "eventsHandler P F fallback clk GET query db =
     (SendJSON StatusOK
        (sort_Slice (\<lambda>i j. Timestamp j < Timestamp i)
           (map (event_of_row fallback)
              (take 25 (sort_Slice (\<lambda>a b. events_ts b < events_ts a)
                          (filter (\<lambda>e. events_ts e < F t) (tbl_events db)))))),
      db)"
  using assms by (simp add: eventsHandler_def select_from_events_order_by_ts_desc_def)

text \<open>
  C8, as amended. For a request whose query string decodes: with no \<open>before\<close>, List answers
  with the \<open>min 25 n\<close> most recent of the \<open>n\<close> events, in descending order of the timestamps in
  the reply: the reply renders the rows of a page, and no row left out (\<open>rest\<close>) has a stored
  time after that of a row of the page. With \<open>before\<close> equal to "all" it answers with the
  whole log in that order. With a \<open>before\<close> that parses, it answers in that order with at most
  25 events, the most recent of those whose stored time is strictly before the parsed time as
  the store formats it. With a \<open>before\<close> that decodes but does not parse it answers 400. In none
  of these cases does the log change. A query string that does not decode makes the handler
  panic. The timestamps of the reply are the renderings of the stored ones, and rendering keeps
  the order of times as SQLite writes them.
\<close>

theorem events_list_pagination:
  "(ParseForm unset = Some form_unset \<and> FormValue form_unset ''before'' = '''' \<longrightarrow>
      (\<exists>evs page rest.
         eventsHandler P F fallback clk GET unset db = (SendJSON StatusOK evs, db) \<and>
         length evs = min 25 (length (tbl_events db)) \<and>
         sorted_wrt (\<lambda>a b. Timestamp b \<le> Timestamp a) evs \<and>
         mset evs = image_mset (event_of_row fallback) (mset page) \<and>
         mset page + mset rest = mset (tbl_events db) \<and>
         (\<forall>a\<in>set page. \<forall>b\<in>set rest. events_ts b \<le> events_ts a))) \<and>
   (ParseForm whole = Some form_whole \<and> FormValue form_whole ''before'' = ''all'' \<longrightarrow>
      (\<exists>evs.
         eventsHandler P F fallback clk GET whole db = (SendJSON StatusOK evs, db) \<and>
         mset evs = image_mset (event_of_row fallback) (mset (tbl_events db)) \<and>
         sorted_wrt (\<lambda>a b. Timestamp b \<le> Timestamp a) evs)) \<and>
   (ParseForm cursor = Some form_cursor \<and> FormValue form_cursor ''before'' = before \<and>
    before \<noteq> '''' \<and> before \<noteq> ''all'' \<and> P before = Some t \<longrightarrow>
      (\<exists>evs page rest.
         eventsHandler P F fallback clk GET cursor db = (SendJSON StatusOK evs, db) \<and>
         length evs = min 25 (length (filter (\<lambda>e. events_ts e < F t) (tbl_events db))) \<and>
         sorted_wrt (\<lambda>a b. Timestamp b \<le> Timestamp a) evs \<and>
         mset evs = image_mset (event_of_row fallback) (mset page) \<and>
         (\<forall>a\<in>set page. events_ts a < F t) \<and>
         mset page + mset rest = mset (filter (\<lambda>e. events_ts e < F t) (tbl_events db)) \<and>
         (\<forall>a\<in>set page. \<forall>b\<in>set rest. events_ts b \<le> events_ts a))) \<and>
   (ParseForm bad = Some form_bad \<and> FormValue form_bad ''before'' = malformed \<and>
    malformed \<noteq> '''' \<and> malformed \<noteq> ''all'' \<and> P malformed = None \<longrightarrow>
      eventsHandler P F fallback clk GET bad db = (SendEmpty StatusBadRequest, db)) \<and>
   (ParseForm undecodable = None \<longrightarrow>
      eventsHandler P F fallback clk m undecodable db = (Panic, db)) \<and>
   (\<forall>r. Timestamp (event_of_row fallback r) = scan_time fallback (events_ts r)) \<and>
   (\<forall>a b. is_datetime a \<and> is_datetime b \<longrightarrow>
      (scan_time fallback a < scan_time fallback b) = (a < b))"
proof (intro conjI impI allI)
  assume a: "ParseForm unset = Some form_unset \<and> FormValue form_unset ''before'' = ''''"
  then have run: "eventsHandler P F fallback clk GET unset db =
     (SendJSON StatusOK
        (sort_Slice (\<lambda>i j. Timestamp j < Timestamp i)
           (map (event_of_row fallback)
              (take 25 (sort_Slice (\<lambda>a b. events_ts b < events_ts a) (tbl_events db))))),
      db)"
    using eventsHandler_unset by blast
  show "\<exists>evs page rest.
         eventsHandler P F fallback clk GET unset db = (SendJSON StatusOK evs, db) \<and>
         length evs = min 25 (length (tbl_events db)) \<and>
         sorted_wrt (\<lambda>a b. Timestamp b \<le> Timestamp a) evs \<and>
         mset evs = image_mset (event_of_row fallback) (mset page) \<and>
         mset page + mset rest = mset (tbl_events db) \<and>
         (\<forall>a\<in>set page. \<forall>b\<in>set rest. events_ts b \<le> events_ts a)"
    unfolding run
    using page_properties(1-3) [where src = "tbl_events db" and n = 25 and fallback = fallback]
      page_properties(4-5) [where src = "tbl_events db" and n = 25]
    by blast
next
  assume "ParseForm whole = Some form_whole \<and> FormValue form_whole ''before'' = ''all''"
  then have run: "eventsHandler P F fallback clk GET whole db =
     (SendJSON StatusOK
        (sort_Slice (\<lambda>i j. Timestamp j < Timestamp i)
           (map (event_of_row fallback)
              (sort_Slice (\<lambda>a b. events_ts b < events_ts a) (tbl_events db)))),
      db)"
    using eventsHandler_all by blast
  show "\<exists>evs.
         eventsHandler P F fallback clk GET whole db = (SendJSON StatusOK evs, db) \<and>
         mset evs = image_mset (event_of_row fallback) (mset (tbl_events db)) \<and>
         sorted_wrt (\<lambda>a b. Timestamp b \<le> Timestamp a) evs"
    unfolding run
    by (simp add: mset_sort_Slice sorted_desc_sort_Slice)
next
  assume a: "ParseForm cursor = Some form_cursor \<and> FormValue form_cursor ''before'' = before \<and>
    before \<noteq> '''' \<and> before \<noteq> ''all'' \<and> P before = Some t"
  let ?src = "filter (\<lambda>e. events_ts e < F t) (tbl_events db)"
  let ?page = "take 25 (sort_Slice (\<lambda>a b. events_ts b < events_ts a) ?src)"
  let ?evs = "sort_Slice (\<lambda>i j. Timestamp j < Timestamp i) (map (event_of_row fallback) ?page)"
  have run: "eventsHandler P F fallback clk GET cursor db = (SendJSON StatusOK ?evs, db)"
    using a eventsHandler_before [of cursor form_cursor before P t F fallback clk db] by blast
  have older: "\<forall>a\<in>set ?page. events_ts a < F t"
    using page_properties(6) [where src = ?src and n = 25] by auto
  show "\<exists>evs page rest.
         eventsHandler P F fallback clk GET cursor db = (SendJSON StatusOK evs, db) \<and>
         length evs = min 25 (length (filter (\<lambda>e. events_ts e < F t) (tbl_events db))) \<and>
         sorted_wrt (\<lambda>a b. Timestamp b \<le> Timestamp a) evs \<and>
         mset evs = image_mset (event_of_row fallback) (mset page) \<and>
         (\<forall>a\<in>set page. events_ts a < F t) \<and>
         mset page + mset rest = mset (filter (\<lambda>e. events_ts e < F t) (tbl_events db)) \<and>
         (\<forall>a\<in>set page. \<forall>b\<in>set rest. events_ts b \<le> events_ts a)"
    unfolding run
    using page_properties(1-3) [where src = ?src and n = 25 and fallback = fallback]
      page_properties(4-5) [where src = ?src and n = 25] older
    by blast
next
  assume "ParseForm bad = Some form_bad \<and> FormValue form_bad ''before'' = malformed \<and>
    malformed \<noteq> '''' \<and> malformed \<noteq> ''all'' \<and> P malformed = None"
  then show "eventsHandler P F fallback clk GET bad db = (SendEmpty StatusBadRequest, db)"
    by (simp add: eventsHandler_def)
next
  assume "ParseForm undecodable = None"
  then show "eventsHandler P F fallback clk m undecodable db = (Panic, db)"
    by (simp add: eventsHandler_def)
next
  fix r
  show "Timestamp (event_of_row fallback r) = scan_time fallback (events_ts r)"
    by (simp add: event_of_row_def)
next
  fix a b
  assume "is_datetime a \<and> is_datetime b"
  then show "(scan_time fallback a < scan_time fallback b) = (a < b)"
    using scan_time_order by blast
qed

end
